theory Spec2Isabelle
  imports Main
begin

text \<open>
  A model of the feedback worker: \<open>classifyFeedback\<close>, \<open>processFeedback\<close>,
  \<open>generateSummary\<close>, \<open>parseSummary\<close> and \<open>extractBullets\<close>. The repository holds two
  copies of the worker. The model follows the copy stored in \<open>schema.sql\<close>, the one with the
  section headers \<open>**Summary**\<close>, \<open>**Key Themes**\<close> and the layered unwrapping of the oracle's
  response; \<open>classifyFeedback\<close> and \<open>extractBullets\<close> are the same in \<open>src/index.ts\<close>, up
  to the request sent to the oracle.
\<close>

section \<open>JavaScript strings\<close>

text \<open>
  A JavaScript string is a sequence of UTF-16 code units. Regular expressions without the
  \<open>u\<close> flag, \<open>trim\<close>, \<open>split\<close>, \<open>includes\<close> and \<open>length\<close> all work on code units,
  so a string is modelled as the list of its code units (natural numbers below 65536; the
  theorems hold for every list). \<open>js\<close> embeds an ASCII literal; the bullet character of the
  source, U+2022, is the code unit 8226.
\<close>

type_synonym cu = nat
type_synonym jsstring = "cu list"

definition js :: "string \<Rightarrow> jsstring" where
  "js s = map of_char s"

definition bullet :: cu where
  "bullet = 8226"

definition nl :: cu where
  "nl = 10"

text \<open>
  ECMAScript WhiteSpace and LineTerminator code points: the set matched by \<open>\s\<close> and the
  set stripped by \<open>String.prototype.trim\<close>.
\<close>

definition is_line_terminator :: "cu \<Rightarrow> bool" where
  "is_line_terminator c = (c \<in> set [10, 13, 8232, 8233])"

definition is_space :: "cu \<Rightarrow> bool" where
  "is_space c = (c \<in> set [9, 10, 11, 12, 13, 32, 160, 5760, 8232, 8233, 8239, 8287, 12288, 65279]
      \<or> (8192 \<le> c \<and> c \<le> 8202))"

definition trim :: "jsstring \<Rightarrow> jsstring" where
  "trim s = rev (dropWhile is_space (rev (dropWhile is_space s)))"

text \<open>\<open>text.split('\n')\<close>: the pieces between the separators; the empty string gives one empty piece.\<close>

fun split_on :: "cu \<Rightarrow> jsstring \<Rightarrow> jsstring list" where
  "split_on d [] = [[]]"
| "split_on d (c # r) =
     (if c = d then [] # split_on d r
      else (case split_on d r of [] \<Rightarrow> [[c]] | x # xs \<Rightarrow> (c # x) # xs))"

text \<open>\<open>s.includes(k)\<close>: \<open>k\<close> occurs in \<open>s\<close> as a contiguous run of code units.\<close>

fun starts_with :: "jsstring \<Rightarrow> jsstring \<Rightarrow> bool" where
  "starts_with [] s = True"
| "starts_with (a # k) [] = False"
| "starts_with (a # k) (c # s) = (a = c \<and> starts_with k s)"

fun includes_str :: "jsstring \<Rightarrow> jsstring \<Rightarrow> bool" where
  "includes_str [] k = (k = [])"
| "includes_str (c # s) k = (starts_with k (c # s) \<or> includes_str s k)"

section \<open>Outcomes of a call\<close>

text \<open>
  A call returns a value, throws, or does not return (a \<open>while\<close> loop over
  \<open>RegExp.prototype.exec\<close> whose match is empty never advances \<open>lastIndex\<close>).
\<close>

datatype jserror = TypeError | SyntaxError | Error jsstring | Rejected jsstring

datatype 'a completion = Return 'a | Throw jserror | NoReturn

fun and_then :: "'a completion \<Rightarrow> ('a \<Rightarrow> 'b completion) \<Rightarrow> 'b completion" where
  "and_then (Return x) f = f x"
| "and_then (Throw e) f = Throw e"
| "and_then NoReturn f = NoReturn"

section \<open>The regular expressions of the source\<close>

text \<open>
  The source's regular expressions use single characters and character classes, the
  quantifiers \<open>?\<close>, \<open>*\<close>, \<open>+\<close> (greedy) and \<open>*?\<close>, \<open>+?\<close> (lazy) on single classes only, one
  capture group, one positive lookahead over a disjunction, and \<open>$\<close>. A pattern is the list
  of its terms; \<open>x+\<close> is written \<open>x x*\<close>.

  \<open>ChI\<close> is a literal under the \<open>i\<close> flag. Without the \<open>u\<close> flag ECMAScript canonicalises
  by \<open>toUpperCase\<close> and never maps a code unit above 127 to one below 128, so an ASCII
  pattern character matches exactly its two ASCII cases. \<open>Dot\<close> is \<open>.\<close> without the \<open>s\<close> flag,
  \<open>AnyCh\<close> is \<open>.\<close> with it, and also \<open>[\s\S]\<close>.
\<close>

definition upper_ascii :: "cu \<Rightarrow> cu" where
  "upper_ascii c = (if 97 \<le> c \<and> c \<le> 122 then c - 32 else c)"

datatype cset = Ch cu | ChI cu | OneOf "cu list" | Space | Digit | Dot | AnyCh

fun in_cset :: "cset \<Rightarrow> cu \<Rightarrow> bool" where
  "in_cset (Ch a) c = (c = a)"
| "in_cset (ChI a) c = (c < 128 \<and> upper_ascii c = upper_ascii a)"
| "in_cset (OneOf as) c = (c \<in> set as)"
| "in_cset Space c = is_space c"
| "in_cset Digit c = (48 \<le> c \<and> c \<le> 57)"
| "in_cset Dot c = (\<not> is_line_terminator c)"
| "in_cset AnyCh c = True"

datatype node = One cset | Opt cset | StarG cset | StarL cset
  | Group "node list" | GroupEnd jsstring | Ahead "node list list" | EndOfInput

fun weight :: "node \<Rightarrow> nat" where
  "weight (Group b) = 2 + sum_list (map weight b)"
| "weight (Ahead alts) = 1 + sum_list (map (\<lambda>a. sum_list (map weight a)) alts)"
| "weight _ = 1"

definition weights :: "node list \<Rightarrow> nat" where
  "weights k = sum_list (map weight k)"

text \<open>
  The backtracking matcher of ECMAScript, with the continuation as the list of terms still
  to match: \<open>m k s cap\<close> matches the terms \<open>k\<close> at the front of the remaining input \<open>s\<close> and
  returns the input left over and the capture of group 1 (\<open>None\<close> is \<open>undefined\<close>), trying
  the choices in priority order and returning the first that lets the rest succeed. A greedy
  quantifier tries one more repetition first, a lazy one tries the rest first. \<open>GroupEnd s0\<close>
  closes the group opened at input \<open>s0\<close>. The lookahead tries its alternatives at the current
  input and consumes nothing; \<open>$\<close> (no \<open>m\<close> flag) holds at the end of the input only.
\<close>

function (sequential) m :: "node list \<Rightarrow> jsstring \<Rightarrow> jsstring option
    \<Rightarrow> (jsstring \<times> jsstring option) option" where
  "m [] s cap = Some (s, cap)"
| "m (One cs # k) [] cap = None"
| "m (One cs # k) (c # r) cap = (if in_cset cs c then m k r cap else None)"
| "m (Opt cs # k) [] cap = m k [] cap"
| "m (Opt cs # k) (c # r) cap =
     (case (if in_cset cs c then m k r cap else None) of
        Some res \<Rightarrow> Some res
      | None \<Rightarrow> m k (c # r) cap)"
| "m (StarG cs # k) [] cap = m k [] cap"
| "m (StarG cs # k) (c # r) cap =
     (case (if in_cset cs c then m (StarG cs # k) r cap else None) of
        Some res \<Rightarrow> Some res
      | None \<Rightarrow> m k (c # r) cap)"
| "m (StarL cs # k) [] cap = m k [] cap"
| "m (StarL cs # k) (c # r) cap =
     (case m k (c # r) cap of
        Some res \<Rightarrow> Some res
      | None \<Rightarrow> (if in_cset cs c then m (StarL cs # k) r cap else None))"
| "m (Group b # k) s cap = m (b @ GroupEnd s # k) s cap"
| "m (GroupEnd s0 # k) s cap = m k s (Some (take (length s0 - length s) s0))"
| "m (Ahead alts # k) s cap =
     (if list_ex (\<lambda>a. m a s cap \<noteq> None) alts then m k s cap else None)"
| "m (EndOfInput # k) s cap = (if s = [] then m k s cap else None)"
  by pat_completeness auto
termination
  apply (relation "measures [\<lambda>(k, s, cap). length s, \<lambda>(k, s, cap). weights k]")
  apply (auto simp: weights_def member_le_sum_list less_Suc_eq_le trans_le_add1)
  done

text \<open>
  A match attempt starts at the current index and moves right until the pattern matches,
  the end of the input included. The result is the input after the match and group 1.
\<close>

fun search :: "node list \<Rightarrow> jsstring \<Rightarrow> (jsstring \<times> jsstring option) option" where
  "search re [] = m re [] None"
| "search re (c # r) =
     (case m re (c # r) None of Some res \<Rightarrow> Some res | None \<Rightarrow> search re r)"

text \<open>\<open>text.match(re)\<close> without the \<open>g\<close> flag: \<open>None\<close> is \<open>null\<close>, otherwise the value of \<open>match[1]\<close>.\<close>

definition str_match :: "jsstring \<Rightarrow> node list \<Rightarrow> jsstring option option" where
  "str_match text re = map_option snd (search re text)"

text \<open>\<open>a || b || ...\<close> over match results: the first that is not \<open>null\<close>.\<close>

fun first_match :: "jsstring \<Rightarrow> node list list \<Rightarrow> jsstring option option" where
  "first_match text [] = None"
| "first_match text (re # res) =
     (case str_match text re of Some r \<Rightarrow> Some r | None \<Rightarrow> first_match text res)"

definition lit :: "string \<Rightarrow> node list" where
  "lit s = map (\<lambda>c. One (Ch (of_char c))) s"

definition lit_i :: "string \<Rightarrow> node list" where
  "lit_i s = map (\<lambda>c. One (ChI (of_char c))) s"

subsection \<open>extractBullets\<close>

text \<open>
  \<^verbatim>\<open>const bulletRegex = /[\<bullet>\*\-\+]\s*(.+?)(?=\n[\<bullet>\*\-\+]|\n\n|$)/g;\<close>
  \<^verbatim>\<open>const numberedRegex = /\d+[\.\)]\s*(.+?)(?=\n\d+[\.\)]|\n\n|$)/g;\<close>
  (\<open>\<bullet>\<close> stands for U+2022).
\<close>

definition bullet_marks :: cset where
  "bullet_marks = OneOf [bullet, 42, 45, 43]"

definition number_marks :: cset where
  "number_marks = OneOf [46, 41]"

definition bulletRegex :: "node list" where
  "bulletRegex =
     [One bullet_marks, StarG Space, Group [One Dot, StarL Dot],
      Ahead [[One (Ch nl), One bullet_marks], [One (Ch nl), One (Ch nl)], [EndOfInput]]]"

definition numberedRegex :: "node list" where
  "numberedRegex =
     [One Digit, StarG Digit, One number_marks, StarG Space, Group [One Dot, StarL Dot],
      Ahead [[One (Ch nl), One Digit, StarG Digit, One number_marks],
             [One (Ch nl), One (Ch nl)], [EndOfInput]]]"

text \<open>
  \<^verbatim>\<open>while ((match = re.exec(text)) !== null) { bullets.push(match[1].trim()); }\<close>
  With the \<open>g\<close> flag the search resumes where the last match ended. \<open>s\<close> is the input from
  \<open>lastIndex\<close> on. \<open>match[1]\<close> undefined would make \<open>trim\<close> throw; a match that consumed
  nothing would be found again for ever.
\<close>

function exec_loop :: "node list \<Rightarrow> jsstring \<Rightarrow> jsstring list \<Rightarrow> jsstring list completion" where
  "exec_loop re s bullets =
     (case search re s of
        None \<Rightarrow> Return bullets
      | Some (r, cap) \<Rightarrow>
          (case cap of
             None \<Rightarrow> Throw TypeError
           | Some c \<Rightarrow>
               if length r < length s then exec_loop re r (bullets @ [trim c]) else NoReturn))"
  by pat_completeness auto
termination
  by (relation "measure (\<lambda>(re, s, bullets). length s)") auto

declare exec_loop.simps [simp del]

definition extractBullets :: "jsstring \<Rightarrow> jsstring list completion" where
  "extractBullets text =
     and_then (exec_loop bulletRegex text []) (\<lambda>bullets1.
     and_then (exec_loop numberedRegex text bullets1) (\<lambda>bullets2.
       let bullets3 =
         (if length bullets2 = 0
          then bullets2 @ filter (\<lambda>l. length l > 0) (map trim (split_on nl text))
          else bullets2)
       in Return (filter (\<lambda>b. length b > 0) bullets3)))"

subsection \<open>parseSummary\<close>

text \<open>
  The patterns of \<open>parseSummary\<close>, in the order the source tries them. All carry the \<open>i\<close>
  flag; the headline patterns also carry \<open>s\<close>, so their \<open>.\<close> matches every code unit.
  \<^verbatim>\<open>/\*\*Summary[:\*]?\*\*\s*\n?(.+?)(?=\n\*\*|$)/is\<close>, the same with \<open>Headline\<close>,
  \<^verbatim>\<open>/Summary[:\-]?\s*\n?(.+?)(?=\n\*\*|$)/is\<close>, the same with \<open>Headline\<close>;
  \<^verbatim>\<open>/\*\*Key\s*Themes[:\*]?\*\*\s*\n?([\s\S]*?)(?=\n\*\*|$)/i\<close> and so on.
\<close>

definition until_header :: "node" where
  "until_header = Ahead [One (Ch nl) # lit_i ''**'', [EndOfInput]]"

text \<open>\<open>\*\*<name>[:\*]?\*\*\s*\n?\<close> and \<open><name>[:\-]?\s*\n?\<close>, where \<open>name\<close> is given as its terms.\<close>

definition bold_header :: "node list \<Rightarrow> node list" where
  "bold_header name =
     lit_i ''**'' @ name @ [Opt (OneOf [58, 42])] @ lit_i ''**'' @ [StarG Space, Opt (Ch nl)]"

definition plain_header :: "node list \<Rightarrow> node list" where
  "plain_header name = name @ [Opt (OneOf [58, 45]), StarG Space, Opt (Ch nl)]"

definition headline_body :: "node list" where
  "headline_body = [Group [One AnyCh, StarL AnyCh], until_header]"

definition section_body :: "node list" where
  "section_body = [Group [StarL AnyCh], until_header]"

definition key_themes :: "node list" where
  "key_themes = lit_i ''Key'' @ [StarG Space] @ lit_i ''Themes''"

definition top_3_themes :: "node list" where
  "top_3_themes = lit_i ''Top'' @ [StarG Space] @ lit_i ''3'' @ [StarG Space] @ lit_i ''Themes''"

definition critical_issues :: "node list" where
  "critical_issues = lit_i ''Critical'' @ [StarG Space] @ lit_i ''Issues''"

definition headline_patterns :: "node list list" where
  "headline_patterns =
     [bold_header (lit_i ''Summary'') @ headline_body,
      bold_header (lit_i ''Headline'') @ headline_body,
      plain_header (lit_i ''Summary'') @ headline_body,
      plain_header (lit_i ''Headline'') @ headline_body]"

definition themes_patterns :: "node list list" where
  "themes_patterns =
     [bold_header key_themes @ section_body,
      bold_header top_3_themes @ section_body,
      plain_header key_themes @ section_body,
      plain_header top_3_themes @ section_body]"

definition issues_patterns :: "node list list" where
  "issues_patterns =
     [bold_header critical_issues @ section_body,
      plain_header critical_issues @ section_body]"

definition rec_patterns :: "node list list" where
  "rec_patterns =
     [bold_header (lit_i ''Recommendation'') @ section_body,
      plain_header (lit_i ''Recommendation'') @ section_body]"

record SummarySections =
  headline :: jsstring
  themes :: "jsstring list"
  criticalIssues :: "jsstring list"
  recommendation :: "jsstring list"

definition no_headline :: jsstring where
  "no_headline = js ''No headline available''"

text \<open>
  \<^verbatim>\<open>const headline = headlineMatch ? headlineMatch[1].trim() : 'No headline available';\<close>
  \<open>trim\<close> of an undefined group would throw.
\<close>

definition headline_of :: "jsstring option option \<Rightarrow> jsstring completion" where
  "headline_of headlineMatch =
     (case headlineMatch of
        None \<Rightarrow> Return no_headline
      | Some None \<Rightarrow> Throw TypeError
      | Some (Some c) \<Rightarrow> Return (trim c))"

text \<open>
  \<^verbatim>\<open>const themesText = themesMatch ? themesMatch[1] : ''; const themes = extractBullets(themesText);\<close>
  With an undefined group, \<open>exec\<close> would search the string \<open>"undefined"\<close>, in which neither
  pattern matches, and \<open>text.split\<close> would then throw.
\<close>

definition section_of :: "jsstring option option \<Rightarrow> jsstring list completion" where
  "section_of sectionMatch =
     (case sectionMatch of
        None \<Rightarrow> extractBullets []
      | Some None \<Rightarrow> Throw TypeError
      | Some (Some sectionText) \<Rightarrow> extractBullets sectionText)"

definition parseSummary :: "jsstring \<Rightarrow> SummarySections completion" where
  "parseSummary summaryText =
     and_then (headline_of (first_match summaryText headline_patterns)) (\<lambda>h.
     and_then (section_of (first_match summaryText themes_patterns)) (\<lambda>ts.
     and_then (section_of (first_match summaryText issues_patterns)) (\<lambda>is.
     and_then (section_of (first_match summaryText rec_patterns)) (\<lambda>rs.
       Return \<lparr> headline = h, themes = take 3 ts, criticalIssues = take 3 is,
                recommendation = take 2 rs \<rparr>))))"

text \<open>The canonical template of the prompt, with the section contents as parameters.\<close>

definition template :: "jsstring \<Rightarrow> jsstring \<Rightarrow> jsstring \<Rightarrow> jsstring \<Rightarrow> jsstring \<Rightarrow> jsstring" where
  "template h a b c d =
     js ''**Summary**'' @ [nl] @ h @ [nl, nl] @
     js ''**Key Themes**'' @ [nl, bullet, 32] @ a @ [nl, bullet, 32] @ b @ [nl, nl] @
     js ''**Critical Issues**'' @ [nl, bullet, 32] @ c @ [nl, nl] @
     js ''**Recommendation**'' @ [nl, bullet, 32] @ d"

section \<open>JavaScript values\<close>

text \<open>
  The values that cross the oracle's interface and come out of \<open>JSON.parse\<close>. Of a number
  the program observes only whether it is falsy, so a number is an integer here. An object
  is the list of its properties; \<open>JSON.parse\<close> and object literals give distinct keys.
\<close>

datatype jsvalue = JUndefined | JNull | JBool bool | JNum int | JStr jsstring
  | JArr "jsvalue list" | JObj "(jsstring \<times> jsvalue) list"

fun truthy :: "jsvalue \<Rightarrow> bool" where
  "truthy JUndefined = False"
| "truthy JNull = False"
| "truthy (JBool b) = b"
| "truthy (JNum n) = (n \<noteq> 0)"
| "truthy (JStr s) = (s \<noteq> [])"
| "truthy (JArr xs) = True"
| "truthy (JObj fs) = True"

text \<open>
  \<open>v.p\<close> for the property names the source reads (\<open>response\<close>, \<open>sentiment\<close>, \<open>urgency\<close>,
  \<open>output\<close>, \<open>type\<close>, \<open>content\<close>, \<open>text\<close>): a \<open>TypeError\<close> on \<open>undefined\<close> and \<open>null\<close>,
  \<open>undefined\<close> on the other primitives and on arrays, which carry none of these names.
\<close>

fun get_prop :: "jsvalue \<Rightarrow> jsstring \<Rightarrow> jserror + jsvalue" where
  "get_prop JUndefined p = Inl TypeError"
| "get_prop JNull p = Inl TypeError"
| "get_prop (JObj fs) p = Inr (case map_of fs p of None \<Rightarrow> JUndefined | Some v \<Rightarrow> v)"
| "get_prop v p = Inr JUndefined"

fun isArray :: "jsvalue \<Rightarrow> bool" where
  "isArray (JArr xs) = True"
| "isArray v = False"

text \<open>\<open>[...].includes(v)\<close> on an array of string literals: \<open>v\<close> is a string and one of them.\<close>

fun array_includes :: "jsstring list \<Rightarrow> jsvalue \<Rightarrow> bool" where
  "array_includes xs (JStr s) = (s \<in> set xs)"
| "array_includes xs v = False"

text \<open>
  The built-in functions of the platform that the program calls and whose results the
  claims do not depend on are parameters: \<open>JSON.parse\<close> (\<open>None\<close> is a \<open>SyntaxError\<close>),
  \<open>JSON.stringify\<close>, also with indentation, \<open>String.prototype.toLowerCase\<close>, the conversion of
  a value to a string done by \<open>join\<close>, and \<open>String(error)\<close>.
\<close>

record platform =
  JSON_parse :: "jsstring \<Rightarrow> jsvalue option"
  JSON_stringify :: "jsvalue \<Rightarrow> jsstring"
  JSON_stringify_indent :: "jsvalue \<Rightarrow> jsstring"
  toLowerCase :: "jsstring \<Rightarrow> jsstring"
  ToString :: "jsvalue \<Rightarrow> jsstring"
  String_error :: "jserror \<Rightarrow> jsstring"

text \<open>
  The bindings of the worker. \<open>AI_run\<close> is \<open>env.AI.run\<close>: it answers a request with a value or
  rejects. The store is abstract: the three statements the program prepares, each of which
  may throw.
\<close>

record ai_request =
  model :: jsstring
  system_content :: jsstring
  user_content :: jsstring

record Feedback =
  fb_id :: int
  fb_content :: jsstring
  fb_sentiment :: "jsstring option"
  fb_urgency :: "jsstring option"
  fb_created_at :: jsstring

record summary_row =
  row_content :: jsstring
  row_sentiment :: jsstring
  row_urgency :: jsstring

record 'row query_result =
  success :: bool
  results :: "'row list option"

record 'db env =
  AI_run :: "ai_request \<Rightarrow> jserror + jsvalue"
  select_unprocessed :: "'db \<Rightarrow> jserror + Feedback query_result"
  update_feedback :: "'db \<Rightarrow> jsstring \<Rightarrow> jsstring \<Rightarrow> int \<Rightarrow> jserror + 'db"
  select_processed :: "'db \<Rightarrow> jsstring \<Rightarrow> jserror + summary_row query_result"

definition dq :: cu where
  "dq = 34"

fun join_lines :: "jsstring list \<Rightarrow> jsstring" where
  "join_lines [] = []"
| "join_lines [l] = l"
| "join_lines (l # ls) = l @ [nl] @ join_lines ls"

section \<open>The classifier\<close>

record ClassificationResult =
  sentiment :: jsstring
  urgency :: jsstring

definition classify_prompt :: "jsstring \<Rightarrow> jsstring" where
  "classify_prompt text = join_lines
     [js ''Analyze this customer feedback and classify it. Return ONLY a JSON object with ''
        @ [dq] @ js ''sentiment'' @ [dq] @ js '' (positive/negative/neutral) and ''
        @ [dq] @ js ''urgency'' @ [dq] @ js '' (high/medium/low).'',
      [],
      js ''Feedback: '' @ [dq] @ text @ [dq],
      [],
      js ''Response format: {'' @ [dq] @ js ''sentiment'' @ [dq] @ js '': ''
        @ [dq] @ js ''positive|negative|neutral'' @ [dq] @ js '', ''
        @ [dq] @ js ''urgency'' @ [dq] @ js '': '' @ [dq] @ js ''high|medium|low'' @ [dq] @ js ''}'']"

definition classify_request :: "jsstring \<Rightarrow> ai_request" where
  "classify_request text =
     \<lparr> model = js ''@cf/openai/gpt-oss-120b'',
       system_content =
         js ''You are a feedback classification assistant. Always respond with valid JSON only.'',
       user_content = classify_prompt text \<rparr>"

text \<open>\<^verbatim>\<open>const responseText = response.response || JSON.stringify(response);\<close>\<close>

definition response_text :: "platform \<Rightarrow> jsvalue \<Rightarrow> jserror + jsvalue" where
  "response_text P response =
     (case get_prop response (js ''response'') of
        Inl e \<Rightarrow> Inl e
      | Inr v \<Rightarrow> Inr (if truthy v then v else JStr (JSON_stringify P response)))"

text \<open>
  \<^verbatim>\<open>/\{[\s\S]*\}/\<close>. The program reads \<open>jsonMatch[0]\<close>, the whole match, which is group 1
  of the pattern with a group around all of it.
\<close>

definition json_regex :: "node list" where
  "json_regex = [Group [One (Ch 123), StarG AnyCh, One (Ch 125)]]"

text \<open>
  The body of the \<open>try\<close> block: \<open>Inl\<close> is what the \<open>catch\<close> receives. A \<open>responseText\<close> that
  is not a string has no callable \<open>match\<close>.
\<close>

definition try_parse :: "platform \<Rightarrow> jsvalue \<Rightarrow> jserror + jsvalue" where
  "try_parse P responseText =
     (case responseText of
        JStr s \<Rightarrow>
          (case str_match s json_regex of
             None \<Rightarrow> Inl (Error (js ''No JSON found in response''))
           | Some None \<Rightarrow> Inl SyntaxError
           | Some (Some jsonMatch0) \<Rightarrow>
               (case JSON_parse P jsonMatch0 of None \<Rightarrow> Inl SyntaxError | Some v \<Rightarrow> Inr v))
      | _ \<Rightarrow> Inl TypeError)"

text \<open>The keyword fallback of the \<open>catch\<close> block.\<close>

definition fallback_sentiment :: "platform \<Rightarrow> jsstring \<Rightarrow> jsstring" where
  "fallback_sentiment P text =
     (let lowerText = toLowerCase P text in
      if includes_str lowerText (js ''great'') \<or> includes_str lowerText (js ''love'')
         \<or> includes_str lowerText (js ''excellent'')
      then js ''positive''
      else if includes_str lowerText (js ''bad'') \<or> includes_str lowerText (js ''hate'')
         \<or> includes_str lowerText (js ''terrible'')
      then js ''negative''
      else js ''neutral'')"

definition fallback_urgency :: "platform \<Rightarrow> jsstring \<Rightarrow> jsstring" where
  "fallback_urgency P text =
     (let lowerText = toLowerCase P text in
      if includes_str lowerText (js ''urgent'') \<or> includes_str lowerText (js ''asap'')
         \<or> includes_str lowerText (js ''critical'')
      then js ''high''
      else if includes_str lowerText (js ''soon'') \<or> includes_str lowerText (js ''important'')
      then js ''medium''
      else js ''low'')"

definition fallback :: "platform \<Rightarrow> jsstring \<Rightarrow> jsvalue" where
  "fallback P text =
     JObj [(js ''sentiment'', JStr (fallback_sentiment P text)),
           (js ''urgency'', JStr (fallback_urgency P text))]"

definition sentiments :: "jsstring list" where
  "sentiments = [js ''positive'', js ''negative'', js ''neutral'']"

definition urgencies :: "jsstring list" where
  "urgencies = [js ''high'', js ''medium'', js ''low'']"

fun string_of :: "jsvalue \<Rightarrow> jsstring" where
  "string_of (JStr s) = s"
| "string_of v = []"

text \<open>
  \<open>Validate and normalize\<close>: the \<open>return\<close> statement. Reading a property of a
  \<open>classification\<close> that is \<open>null\<close> throws, outside the \<open>try\<close> block. \<open>string_of\<close> is applied to
  a member of the array only.
\<close>

definition validate :: "jsvalue \<Rightarrow> jserror + ClassificationResult" where
  "validate classification =
     (case get_prop classification (js ''sentiment'') of
        Inl e \<Rightarrow> Inl e
      | Inr s \<Rightarrow>
          (case get_prop classification (js ''urgency'') of
             Inl e \<Rightarrow> Inl e
           | Inr u \<Rightarrow>
               Inr \<lparr> sentiment = (if array_includes sentiments s then string_of s else js ''neutral''),
                     urgency = (if array_includes urgencies u then string_of u else js ''low'') \<rparr>))"

text \<open>
  \<open>classifyFeedback\<close>: the oracle call and the read of \<open>response.response\<close> are outside the
  \<open>try\<close> block, so what they throw leaves the function.
\<close>

definition classifyFeedback :: "platform \<Rightarrow> 'db env \<Rightarrow> jsstring \<Rightarrow> jserror + ClassificationResult" where
  "classifyFeedback P env text =
     (case AI_run env (classify_request text) of
        Inl e \<Rightarrow> Inl e
      | Inr response \<Rightarrow>
          (case response_text P response of
             Inl e \<Rightarrow> Inl e
           | Inr responseText \<Rightarrow>
               validate (case try_parse P responseText of
                           Inr classification \<Rightarrow> classification
                         | Inl error \<Rightarrow> fallback P text)))"

subsection \<open>processFeedback\<close>

record processed_item =
  item_id :: int
  item_content :: jsstring
  item_sentiment :: jsstring
  item_urgency :: jsstring

record error_entry =
  err_id :: int
  err_error :: jsstring

text \<open>
  The body of the response before \<open>JSON.stringify\<close>: the message of the early return, the
  report (\<open>processed\<close>, \<open>items\<close>, and \<open>errors\<close>, which is \<open>undefined\<close> when the list is empty), or
  the error of status 500.
\<close>

datatype process_response =
    NoUnprocessed jsstring
  | Processed nat "processed_item list" "error_entry list option"
  | ProcessFailed jsstring

text \<open>
  The \<open>for\<close> loop: whatever \<open>classifyFeedback\<close> or the update throws is caught for this item
  and recorded in \<open>errors\<close>; the loop goes on with the next item.
\<close>

fun process_items :: "platform \<Rightarrow> 'db env \<Rightarrow> Feedback list \<Rightarrow> 'db \<Rightarrow> processed_item list
    \<Rightarrow> error_entry list \<Rightarrow> processed_item list \<times> error_entry list \<times> 'db" where
  "process_items P env [] db processed errors = (processed, errors, db)"
| "process_items P env (feedback # rest) db processed errors =
     (case classifyFeedback P env (fb_content feedback) of
        Inl error \<Rightarrow>
          process_items P env rest db processed
            (errors @ [\<lparr> err_id = fb_id feedback, err_error = String_error P error \<rparr>])
      | Inr classification \<Rightarrow>
          (case update_feedback env db (sentiment classification) (urgency classification)
                  (fb_id feedback) of
             Inl error \<Rightarrow>
               process_items P env rest db processed
                 (errors @ [\<lparr> err_id = fb_id feedback, err_error = String_error P error \<rparr>])
           | Inr db' \<Rightarrow>
               process_items P env rest db'
                 (processed @ [\<lparr> item_id = fb_id feedback,
                                 item_content = take 50 (fb_content feedback) @ js ''...'',
                                 item_sentiment = sentiment classification,
                                 item_urgency = urgency classification \<rparr>])
                 errors))"

definition processFeedback :: "platform \<Rightarrow> 'db env \<Rightarrow> 'db \<Rightarrow> process_response \<times> 'db" where
  "processFeedback P env db =
     (case select_unprocessed env db of
        Inl error \<Rightarrow> (ProcessFailed (String_error P error), db)
      | Inr result \<Rightarrow>
          (case (if success result then results result else None) of
             None \<Rightarrow> (NoUnprocessed (js ''No unprocessed feedback found''), db)
           | Some [] \<Rightarrow> (NoUnprocessed (js ''No unprocessed feedback found''), db)
           | Some (feedback # rest) \<Rightarrow>
               (case process_items P env (feedback # rest) db [] [] of
                  (processed, errors, db') \<Rightarrow>
                    (Processed (length processed) processed
                       (if length errors > 0 then Some errors else None), db'))))"

section \<open>The summary extractor\<close>

definition today :: jsstring where
  "today = js ''2026-01-18''"

text \<open>\<open>feedbackData\<close>: the projection of the rows to \<open>content\<close>, \<open>sentiment\<close>, \<open>urgency\<close>.\<close>

definition feedbackData :: "summary_row list \<Rightarrow> jsvalue" where
  "feedbackData rows =
     JArr (map (\<lambda>f. JObj [(js ''content'', JStr (row_content f)),
                            (js ''sentiment'', JStr (row_sentiment f)),
                            (js ''urgency'', JStr (row_urgency f))]) rows)"

definition summary_prompt :: "jsstring \<Rightarrow> jsstring" where
  "summary_prompt feedbackJson = join_lines
     [js ''Below is customer feedback collected from multiple channels (support, GitHub, Discord, social media).'',
      [],
      js ''Each item includes sentiment and urgency labels.'',
      [],
      js ''Data:'',
      [],
      feedbackJson,
      [],
      js ''Produce a concise PM-facing summary with EXACTLY the following structure. Use the exact section headers shown:'',
      [],
      js ''**Summary**'',
      [],
      js ''[One sentence describing the single most critical product risk. Be specific about the risk and its impact.]'',
      [],
      js ''**Key Themes**'',
      [],
      js ''[Three bullet points synthesizing feedback into user problems. Focus on developer pain points, not feature requests. Avoid repeating similar wording across bullets.]'',
      [],
      js ''**Critical Issues**'',
      [],
      js ''[Maximum 3 bullet points focusing on root causes, not symptoms. Explain why these issues are blocking or risky. Use concrete examples when possible.]'',
      [],
      js ''**Recommendation**'',
      [],
      js ''[Maximum 2 bullet points that are opinionated and actionable. Suggest what to do first and what can wait. Be specific about actions, timelines, or priorities.]'',
      [],
      js ''Guidelines:'',
      js ''- Use the exact section headers: **Summary**, **Key Themes**, **Critical Issues**, **Recommendation**'',
      js ''- Do NOT repeat phrases across sections'',
      js ''- Do NOT use vague language like '' @ [dq] @ js ''prioritize'' @ [dq] @ js '' or ''
        @ [dq] @ js ''address issues'' @ [dq] @ js '' without specifics'',
      js ''- Write as if this will be read by a Director of Product'',
      js ''- Keep the entire response under 150 words'',
      js ''- Focus on developer experience, runtime stability, deployment workflows, and tooling reliability'']"

definition summary_request :: "jsstring \<Rightarrow> ai_request" where
  "summary_request feedbackJson =
     \<lparr> model = js ''@cf/openai/gpt-oss-120b'',
       system_content =
         js ''You are a senior product manager at Cloudflare writing for a Director of Product. ''
         @ js ''Generate concise, opinionated summaries that focus on root causes and specific recommendations. ''
         @ js ''Follow the exact structure provided. ''
         @ js ''Context: This feedback is about Cloudflare Workers and the Cloudflare Developer Platform. ''
         @ js ''Focus on developer experience, runtime stability, deployment workflows, and tooling reliability. ''
         @ js ''Avoid consumer SaaS language such as refunds or end-user outages.'',
       user_content = summary_prompt feedbackJson \<rparr>"

subsection \<open>Unwrapping the oracle's response\<close>

fun and_then_sum :: "jserror + 'a \<Rightarrow> ('a \<Rightarrow> jserror + 'b) \<Rightarrow> jserror + 'b" where
  "and_then_sum (Inl e) f = Inl e"
| "and_then_sum (Inr x) f = f x"

text \<open>\<open>filter\<close> and \<open>map\<close> with a callback that may throw, from left to right.\<close>

fun filter_throwing :: "('a \<Rightarrow> jserror + bool) \<Rightarrow> 'a list \<Rightarrow> jserror + 'a list" where
  "filter_throwing p [] = Inr []"
| "filter_throwing p (x # xs) =
     and_then_sum (p x) (\<lambda>keep.
     and_then_sum (filter_throwing p xs) (\<lambda>ys. Inr (if keep then x # ys else ys)))"

fun map_throwing :: "('a \<Rightarrow> jserror + 'b) \<Rightarrow> 'a list \<Rightarrow> jserror + 'b list" where
  "map_throwing f [] = Inr []"
| "map_throwing f (x # xs) =
     and_then_sum (f x) (\<lambda>y.
     and_then_sum (map_throwing f xs) (\<lambda>ys. Inr (y # ys)))"

text \<open>\<^verbatim>\<open>item.type === 'message' && item.content && Array.isArray(item.content)\<close>\<close>

definition is_message :: "jsvalue \<Rightarrow> jserror + bool" where
  "is_message item =
     and_then_sum (get_prop item (js ''type'')) (\<lambda>t.
       if t = JStr (js ''message'')
       then and_then_sum (get_prop item (js ''content'')) (\<lambda>c. Inr (truthy c \<and> isArray c))
       else Inr False)"

text \<open>\<^verbatim>\<open>flatMap((item) => item.content)\<close>: an array is spliced in, any other value is one element.\<close>

definition item_content_blocks :: "jsvalue \<Rightarrow> jserror + jsvalue list" where
  "item_content_blocks item =
     and_then_sum (get_prop item (js ''content'')) (\<lambda>c.
       case c of JArr blocks \<Rightarrow> Inr blocks | _ \<Rightarrow> Inr [c])"

text \<open>\<^verbatim>\<open>c.type === 'output_text' && c.text\<close>\<close>

definition is_output_text :: "jsvalue \<Rightarrow> jserror + bool" where
  "is_output_text c =
     and_then_sum (get_prop c (js ''type'')) (\<lambda>t.
       if t = JStr (js ''output_text'')
       then and_then_sum (get_prop c (js ''text'')) (\<lambda>x. Inr (truthy x))
       else Inr False)"

text \<open>\<open>textParts.join('')\<close>: \<open>undefined\<close> and \<open>null\<close> give the empty string, a string itself.\<close>

fun join_part :: "platform \<Rightarrow> jsvalue \<Rightarrow> jsstring" where
  "join_part P (JStr s) = s"
| "join_part P JUndefined = []"
| "join_part P JNull = []"
| "join_part P v = ToString P v"

definition output_texts :: "platform \<Rightarrow> jsvalue list \<Rightarrow> jserror + jsstring" where
  "output_texts P output =
     and_then_sum (filter_throwing is_message output) (\<lambda>messages.
     and_then_sum (map_throwing item_content_blocks messages) (\<lambda>contents.
     and_then_sum (filter_throwing is_output_text (concat contents)) (\<lambda>blocks.
     and_then_sum (map_throwing (\<lambda>c. get_prop c (js ''text'')) blocks) (\<lambda>textParts.
       Inr (concat (map (join_part P) textParts))))))"

text \<open>
  The \<open>if\<close> / \<open>else if\<close> / \<open>else\<close> on \<open>parsed\<close>. An array is truthy, so the first condition is
  \<open>Array.isArray(parsed.output)\<close>.
\<close>

definition unwrap_parsed :: "platform \<Rightarrow> jsvalue \<Rightarrow> jserror + jsvalue" where
  "unwrap_parsed P parsed =
     and_then_sum (get_prop parsed (js ''output'')) (\<lambda>output.
       case output of
         JArr items \<Rightarrow>
           and_then_sum (output_texts P items) (\<lambda>joined.
             Inr (JStr (if joined \<noteq> [] then joined else JSON_stringify P parsed)))
       | _ \<Rightarrow>
           and_then_sum (get_prop parsed (js ''response'')) (\<lambda>response.
             Inr (if truthy response then response else JStr (JSON_stringify P parsed))))"

text \<open>\<^verbatim>\<open>const parsed = typeof aiResponse === 'string' ? JSON.parse(aiResponse) : aiResponse;\<close>\<close>

definition parse_response :: "platform \<Rightarrow> jsvalue \<Rightarrow> jserror + jsvalue" where
  "parse_response P aiResponse =
     (case aiResponse of
        JStr s \<Rightarrow> (case JSON_parse P s of None \<Rightarrow> Inl SyntaxError | Some v \<Rightarrow> Inr v)
      | _ \<Rightarrow> Inr aiResponse)"

text \<open>
  The \<open>try\<close> / \<open>catch\<close> that computes \<open>summaryText\<close>. In the \<open>catch\<close>, \<open>JSON.stringify(undefined)\<close>
  is \<open>undefined\<close>.
\<close>

definition summary_text :: "platform \<Rightarrow> jsvalue \<Rightarrow> jsvalue" where
  "summary_text P aiResponse =
     (case and_then_sum (parse_response P aiResponse) (unwrap_parsed P) of
        Inr summaryText \<Rightarrow> summaryText
      | Inl error \<Rightarrow>
          (case aiResponse of
             JStr s \<Rightarrow> JStr s
           | JUndefined \<Rightarrow> JUndefined
           | _ \<Rightarrow> JStr (JSON_stringify P aiResponse)))"

subsection \<open>generateSummary\<close>

text \<open>
  The body of the response: the message of the early return for an empty batch, the
  summary with its date and count, or the error of status 500. The second component of the
  result is the list of requests sent to the oracle.
\<close>

datatype summary_response =
    NoProcessed jsstring jsstring
  | Summary jsstring jsvalue nat
  | SummaryFailed jsstring

definition generateSummary :: "platform \<Rightarrow> 'db env \<Rightarrow> 'db \<Rightarrow> summary_response \<times> ai_request list" where
  "generateSummary P env db =
     (case select_processed env db today of
        Inl error \<Rightarrow> (SummaryFailed (String_error P error), [])
      | Inr feedbackResult \<Rightarrow>
          (case (if success feedbackResult then results feedbackResult else None) of
             None \<Rightarrow>
               (NoProcessed today (js ''No processed feedback found for the specified date''), [])
           | Some [] \<Rightarrow>
               (NoProcessed today (js ''No processed feedback found for the specified date''), [])
           | Some (f # fs) \<Rightarrow>
               (let request = summary_request (JSON_stringify_indent P (feedbackData (f # fs)))
                in case AI_run env request of
                     Inl error \<Rightarrow> (SummaryFailed (String_error P error), [request])
                   | Inr aiResponse \<Rightarrow>
                       (Summary today (summary_text P aiResponse) (length (f # fs)), [request]))))"

section \<open>Instances for evaluation\<close>

text \<open>
  A platform for evaluating the model on concrete inputs. \<open>JSON.parse\<close> and \<open>JSON.stringify\<close>
  are given by a finite table of texts and their values, which must cover the arguments an
  example passes to them; \<open>toLowerCase\<close> is the ASCII one.
\<close>

definition lower_ascii :: "cu \<Rightarrow> cu" where
  "lower_ascii c = (if 65 \<le> c \<and> c \<le> 90 then c + 32 else c)"

definition error_text :: "jserror \<Rightarrow> jsstring" where
  "error_text e =
     (case e of
        TypeError \<Rightarrow> js ''TypeError''
      | SyntaxError \<Rightarrow> js ''SyntaxError''
      | Error msg \<Rightarrow> js ''Error: '' @ msg
      | Rejected msg \<Rightarrow> msg)"

definition table_platform :: "(jsstring \<times> jsvalue) list \<Rightarrow> platform" where
  "table_platform json =
     \<lparr> JSON_parse = map_of json,
       JSON_stringify = (\<lambda>v. case map_of (map (\<lambda>(s, v). (v, s)) json) v of
                                 None \<Rightarrow> js ''null'' | Some s \<Rightarrow> s),
       JSON_stringify_indent = (\<lambda>v. case map_of (map (\<lambda>(s, v). (v, s)) json) v of
                                 None \<Rightarrow> js ''null'' | Some s \<Rightarrow> s),
       toLowerCase = map lower_ascii,
       ToString = string_of,
       String_error = error_text \<rparr>"

text \<open>
  A store held in memory, as a list of rows, and two oracles: one that answers every
  request with the same value and one that rejects every request.
\<close>

definition memory_env :: "(ai_request \<Rightarrow> jserror + jsvalue) \<Rightarrow> summary_row list \<Rightarrow> (Feedback list) env" where
  "memory_env oracle processed_rows =
     \<lparr> AI_run = oracle,
       select_unprocessed = (\<lambda>db. Inr \<lparr> success = True,
          results = Some (take 10 (filter (\<lambda>f. fb_sentiment f = None \<or> fb_urgency f = None) db)) \<rparr>),
       update_feedback = (\<lambda>db s u i. Inr (map (\<lambda>f. if fb_id f = i
          then f \<lparr> fb_sentiment := Some s, fb_urgency := Some u \<rparr> else f) db)),
       select_processed = (\<lambda>db date. Inr \<lparr> success = True, results = Some processed_rows \<rparr>) \<rparr>"

definition unclassified :: "int \<Rightarrow> jsstring \<Rightarrow> Feedback" where
  "unclassified i text =
     \<lparr> fb_id = i, fb_content = text, fb_sentiment = None, fb_urgency = None,
       fb_created_at = js ''2026-01-18 00:00:00'' \<rparr>"

text \<open>The ten rows of the sample data in \<open>schema.sql\<close>, with the apostrophes written out.\<close>

definition sample_batch :: "Feedback list" where
  "sample_batch =
     [unclassified 1 (js ''This product is amazing! I love how easy it is to use.''),
      unclassified 2 (js ''The app crashed three times today. This is urgent and needs immediate attention!''),
      unclassified 3 (js ''The interface is okay, nothing special but it works.''),
      unclassified 4 (js ''I hate this service. It is terrible and I want a refund ASAP!''),
      unclassified 5 (js ''Great customer support, very helpful team.''),
      unclassified 6 (js ''The loading time is too slow. Please fix this soon.''),
      unclassified 7 (js ''Love the new features! Keep up the good work.''),
      unclassified 8 (js ''Critical bug: users cannot log in. This needs to be fixed immediately!''),
      unclassified 9 (js ''The design is nice but could use some improvements.''),
      unclassified 10 (js ''Best product I have ever used. Highly recommend!'')]"

definition oracle_down :: "ai_request \<Rightarrow> jserror + jsvalue" where
  "oracle_down request = Inl (Rejected (js ''AI unavailable''))"

definition oracle_says :: "jsvalue \<Rightarrow> ai_request \<Rightarrow> jserror + jsvalue" where
  "oracle_says response request = Inr response"

text \<open>
  The text \<^verbatim>\<open>{"sentiment":"happy","urgency":3}\<close> and its value, the text
  \<^verbatim>\<open>{"output":[],"response":"hello"}\<close> and its value, and an envelope with one message of two
  text blocks.
\<close>

definition happy_json :: jsstring where
  "happy_json = js ''{'' @ [dq] @ js ''sentiment'' @ [dq] @ js '':'' @ [dq] @ js ''happy'' @ [dq]
     @ js '','' @ [dq] @ js ''urgency'' @ [dq] @ js '':3}''"

definition happy_value :: jsvalue where
  "happy_value = JObj [(js ''sentiment'', JStr (js ''happy'')), (js ''urgency'', JNum 3)]"

definition empty_output_json :: jsstring where
  "empty_output_json = js ''{'' @ [dq] @ js ''output'' @ [dq] @ js '':[],'' @ [dq] @ js ''response''
     @ [dq] @ js '':'' @ [dq] @ js ''hello'' @ [dq] @ js ''}''"

definition empty_output_value :: jsvalue where
  "empty_output_value = JObj [(js ''output'', JArr []), (js ''response'', JStr (js ''hello''))]"

definition output_text_block :: "jsstring \<Rightarrow> jsvalue" where
  "output_text_block s = JObj [(js ''type'', JStr (js ''output_text'')), (js ''text'', JStr s)]"

definition message_value :: jsvalue where
  "message_value =
     JObj [(js ''output'',
            JArr [JObj [(js ''type'', JStr (js ''message'')),
                        (js ''content'', JArr [output_text_block (js ''hi ''),
                                                output_text_block (js ''there'')])]]),
           (js ''response'', JStr (js ''hello''))]"

section \<open>Properties of the matcher used in the proofs\<close>

text \<open>
  \<open>closes k\<close>: the terms \<open>k\<close> contain group 1 or its end outside a lookahead, so that a match
  of \<open>k\<close> defines the group. \<open>sound\<close> is what every successful match guarantees: the input
  left over is no longer than the input, and the group is defined if \<open>k\<close> closes it.
\<close>

fun closes :: "node list \<Rightarrow> bool" where
  "closes [] = False"
| "closes (Group b # k) = True"
| "closes (GroupEnd s0 # k) = True"
| "closes (n # k) = closes k"

definition sound :: "node list \<Rightarrow> jsstring \<Rightarrow> jsstring option \<Rightarrow> jsstring \<Rightarrow> jsstring option \<Rightarrow> bool" where
  "sound k s cap r cap' = (length r \<le> length s \<and> (closes k \<or> cap \<noteq> None \<longrightarrow> cap' \<noteq> None))"

section \<open>Evaluation\<close>

lemmas eval_defs = js_def bullet_def nl_def bulletRegex_def numberedRegex_def bullet_marks_def
  number_marks_def is_space_def is_line_terminator_def upper_ascii_def trim_def
  extractBullets_def exec_loop.simps

lemmas parse_defs = parseSummary_def headline_of_def section_of_def
  str_match_def headline_patterns_def themes_patterns_def issues_patterns_def rec_patterns_def
  bold_header_def plain_header_def headline_body_def section_body_def key_themes_def
  top_3_themes_def critical_issues_def until_header_def lit_i_def no_headline_def template_def

lemmas platform_defs = table_platform_def lower_ascii_def error_text_def dq_def

lemmas env_defs = memory_env_def oracle_says_def oracle_down_def

lemmas classify_defs = classifyFeedback_def response_text_def try_parse_def str_match_def
  json_regex_def validate_def fallback_def fallback_sentiment_def fallback_urgency_def
  sentiments_def urgencies_def Let_def

section \<open>The matcher consumes input and defines its group\<close>

lemma closes_append: "closes (b @ GroupEnd s0 # k)"
  by (induction b rule: closes.induct) simp_all

lemma sound_skip:
  "sound k s cap r cap' \<Longrightarrow> n \<notin> range Group \<Longrightarrow> n \<notin> range GroupEnd \<Longrightarrow> sound (n # k) s cap r cap'"
  by (cases n) (auto simp: sound_def)

lemma sound_step:
  "sound k s cap r cap' \<Longrightarrow> sound k (c # s) cap r cap'"
  by (simp add: sound_def le_SucI)

lemma sound_Group: "sound (b @ GroupEnd s # k) s cap r cap' \<Longrightarrow> sound (Group b # k) s cap r cap'"
  by (simp add: sound_def closes_append)

lemma sound_GroupEnd: "sound k s (Some x) r cap' \<Longrightarrow> sound (GroupEnd s0 # k) s cap r cap'"
  by (simp add: sound_def)

lemma m_sound: "m k s cap = Some (r, cap') \<Longrightarrow> sound k s cap r cap'"
proof (induction k s cap arbitrary: r cap' rule: m.induct)
  case (3 cs k c r0 cap)
  from "3.prems" have a: "in_cset cs c" and b: "m k r0 cap = Some (r, cap')"
    by (simp_all split: if_splits)
  from "3.IH" [OF a b] show ?case by (intro sound_skip sound_step) auto
next
  case (5 cs k c r0 cap)
  show ?case
  proof (cases "if in_cset cs c then m k r0 cap else None")
    case None
    with "5.prems" have "m k (c # r0) cap = Some (r, cap')" by simp
    from "5.IH"(2) [OF None this] show ?thesis by (intro sound_skip) auto
  next
    case (Some res)
    with "5.prems" have a: "in_cset cs c" and b: "m k r0 cap = Some (r, cap')"
      by (simp_all split: if_splits)
    from "5.IH"(1) [OF a b] show ?thesis by (intro sound_skip sound_step) auto
  qed
next
  case (7 cs k c r0 cap)
  show ?case
  proof (cases "if in_cset cs c then m (StarG cs # k) r0 cap else None")
    case None
    with "7.prems" have "m k (c # r0) cap = Some (r, cap')" by simp
    from "7.IH"(2) [OF None this] show ?thesis by (intro sound_skip) auto
  next
    case (Some res)
    with "7.prems" have a: "in_cset cs c" and b: "m (StarG cs # k) r0 cap = Some (r, cap')"
      by (simp_all split: if_splits)
    from "7.IH"(1) [OF a b] show ?thesis by (rule sound_step)
  qed
next
  case (9 cs k c r0 cap)
  show ?case
  proof (cases "m k (c # r0) cap")
    case None
    with "9.prems" have a: "in_cset cs c" and b: "m (StarL cs # k) r0 cap = Some (r, cap')"
      by (simp_all split: if_splits)
    from "9.IH"(2) [OF None a b] show ?thesis by (rule sound_step)
  next
    case (Some res)
    with "9.prems" have "m k (c # r0) cap = Some (r, cap')" by simp
    from "9.IH"(1) [OF this] show ?thesis by (intro sound_skip) auto
  qed
next
  case (10 b k s cap)
  from "10.prems" have "m (b @ GroupEnd s # k) s cap = Some (r, cap')" by simp
  from "10.IH" [OF this] show ?case by (rule sound_Group)
next
  case (11 s0 k s cap)
  from "11.prems" have "m k s (Some (take (length s0 - length s) s0)) = Some (r, cap')" by simp
  from "11.IH" [OF this] show ?case by (rule sound_GroupEnd)
next
  case (12 alts k s cap)
  from "12.prems" have a: "list_ex (\<lambda>a. m a s cap \<noteq> None) alts" and b: "m k s cap = Some (r, cap')"
    by (simp_all split: if_splits)
  from "12.IH"(2) [OF a b] show ?case by (intro sound_skip) auto
next
  case (13 k s cap)
  from "13.prems" have a: "s = []" and b: "m k s cap = Some (r, cap')"
    by (simp_all split: if_splits)
  from "13.IH" [OF a b] show ?case by (intro sound_skip) auto
next
  case (1 s cap) from "1.prems" show ?case by (simp add: sound_def)
next
  case (2 cs k cap) from "2.prems" show ?case by simp
next
  case (4 cs k cap)
  from "4.prems" have "m k [] cap = Some (r, cap')" by simp
  from "4.IH" [OF this] show ?case by (intro sound_skip) auto
next
  case (6 cs k cap)
  from "6.prems" have "m k [] cap = Some (r, cap')" by simp
  from "6.IH" [OF this] show ?case by (intro sound_skip) auto
next
  case (8 cs k cap)
  from "8.prems" have "m k [] cap = Some (r, cap')" by simp
  from "8.IH" [OF this] show ?case by (intro sound_skip) auto
qed

lemma search_sound: "search re s = Some (r, cap) \<Longrightarrow> sound re s None r cap"
proof (induction re s rule: search.induct)
  case (1 re)
  then show ?case by (simp add: m_sound)
next
  case (2 re c s)
  show ?case
  proof (cases "m re (c # s) None")
    case None
    with "2.prems" have "search re s = Some (r, cap)" by simp
    from "2.IH" [OF None this] show ?thesis by (rule sound_step)
  next
    case (Some res)
    with "2.prems" have "m re (c # s) None = Some (r, cap)" by simp
    then show ?thesis by (rule m_sound)
  qed
qed

lemma search_capture: "search re s = Some (r, cap) \<Longrightarrow> closes re \<Longrightarrow> \<exists>c. cap = Some c"
  using search_sound [of re s r cap] by (auto simp: sound_def)

lemma search_progress: "search (One cs # k) s = Some (r, cap) \<Longrightarrow> length r < length s"
proof (induction s)
  case Nil
  then show ?case by simp
next
  case (Cons c s)
  show ?case
  proof (cases "m (One cs # k) (c # s) None")
    case None
    with Cons.prems have "search (One cs # k) s = Some (r, cap)" by simp
    from Cons.IH [OF this] show ?thesis by simp
  next
    case (Some res)
    with Cons.prems have "m (One cs # k) (c # s) None = Some (r, cap)" by simp
    then have "m k s None = Some (r, cap)" by (simp split: if_splits)
    from m_sound [OF this] show ?thesis by (simp add: sound_def)
  qed
qed

lemma exec_loop_returns:
  "closes k \<Longrightarrow> \<exists>bs. exec_loop (One cs # k) s acc = Return (acc @ bs)"
proof (induction s arbitrary: acc rule: length_induct)
  case (1 s)
  show ?case
  proof (cases "search (One cs # k) s")
    case None
    then show ?thesis by (simp add: exec_loop.simps)
  next
    case (Some res)
    obtain r cap where res: "res = (r, cap)" by (cases res)
    from Some res have s: "search (One cs # k) s = Some (r, cap)" by simp
    from search_capture [OF s] "1.prems" obtain c where c: "cap = Some c" by auto
    from search_progress [OF s] have lt: "length r < length s" .
    from "1.IH" lt "1.prems" obtain bs
      where "exec_loop (One cs # k) r (acc @ [trim c]) = Return ((acc @ [trim c]) @ bs)" by blast
    then show ?thesis using s c lt by (subst exec_loop.simps) simp
  qed
qed


lemma bulletRegex_shape: "\<exists>cs k. bulletRegex = One cs # k \<and> closes k"
  by (simp add: bulletRegex_def)

lemma numberedRegex_shape: "\<exists>cs k. numberedRegex = One cs # k \<and> closes k"
  by (simp add: numberedRegex_def)

lemma exec_loop_append:
  "exec_loop re s acc = and_then (exec_loop re s []) (\<lambda>bs. Return (acc @ bs))"
proof (induction s arbitrary: acc rule: length_induct)
  case (1 s)
  show ?case
  proof (cases "search re s")
    case None
    then show ?thesis by (simp add: exec_loop.simps)
  next
    case (Some res)
    obtain r cap where res: "res = (r, cap)" by (cases res)
    show ?thesis
    proof (cases cap)
      case None
      with Some res show ?thesis by (simp add: exec_loop.simps)
    next
      case (Some c)
      note c = this
      show ?thesis
      proof (cases "length r < length s")
        case False
        with \<open>search re s = Some res\<close> res c show ?thesis by (simp add: exec_loop.simps)
      next
        case True
        from "1.IH" True have a: "exec_loop re r (acc @ [trim c]) =
            and_then (exec_loop re r []) (\<lambda>bs. Return ((acc @ [trim c]) @ bs))" by blast
        from "1.IH" True have b: "exec_loop re r [trim c] =
            and_then (exec_loop re r []) (\<lambda>bs. Return ([trim c] @ bs))" by blast
        have l: "exec_loop re s acc = exec_loop re r (acc @ [trim c])"
          using \<open>search re s = Some res\<close> res c True by (subst exec_loop.simps) simp
        have r: "exec_loop re s [] = exec_loop re r [trim c]"
          using \<open>search re s = Some res\<close> res c True by (subst exec_loop.simps) simp
        show ?thesis unfolding l r a b by (cases "exec_loop re r []") simp_all
      qed
    qed
  qed
qed

lemma bullet_loop_returns: "\<exists>bs. exec_loop bulletRegex s acc = Return (acc @ bs)"
  using bulletRegex_shape exec_loop_returns by metis

lemma numbered_loop_returns: "\<exists>bs. exec_loop numberedRegex s acc = Return (acc @ bs)"
  using numberedRegex_shape exec_loop_returns by metis

lemma extractBullets_returns: "\<exists>bs. extractBullets s = Return bs"
proof -
  obtain bs where b: "exec_loop bulletRegex s [] = Return bs"
    using bullet_loop_returns [of s "[]"] by auto
  obtain ns where n: "exec_loop numberedRegex s bs = Return (bs @ ns)"
    using numbered_loop_returns [of s bs] by auto
  show ?thesis by (simp add: extractBullets_def b n Let_def)
qed

lemma extractBullets_empty: "extractBullets [] = Return []"
  by (simp add: eval_defs)

lemma patterns_close:
  "\<forall>re \<in> set headline_patterns. closes re" "\<forall>re \<in> set themes_patterns. closes re"
  "\<forall>re \<in> set issues_patterns. closes re" "\<forall>re \<in> set rec_patterns. closes re"
  by (simp_all add: parse_defs)

lemma first_match_capture:
  "first_match s res = Some x \<Longrightarrow> \<forall>re \<in> set res. closes re \<Longrightarrow> \<exists>c. x = Some c"
proof (induction res)
  case Nil
  then show ?case by simp
next
  case (Cons re res)
  show ?case
  proof (cases "search re s")
    case None
    with Cons show ?thesis by (simp add: str_match_def)
  next
    case (Some p)
    obtain r cap where p: "p = (r, cap)" by (cases p)
    from Some p Cons.prems(1) have "x = cap" by (simp add: str_match_def)
    moreover from search_capture [of re s r cap] Some p Cons.prems(2) have "\<exists>c. cap = Some c" by simp
    ultimately show ?thesis by simp
  qed
qed

lemma headline_of_returns:
  "\<exists>h. headline_of (first_match s headline_patterns) = Return h
     \<and> (first_match s headline_patterns = None \<longrightarrow> h = no_headline)"
proof (cases "first_match s headline_patterns")
  case None
  then show ?thesis by (simp add: headline_of_def)
next
  case (Some x)
  from first_match_capture [OF Some patterns_close(1)] obtain c where "x = Some c" by auto
  with Some show ?thesis by (simp add: headline_of_def)
qed

lemma section_of_returns:
  "\<forall>re \<in> set res. closes re \<Longrightarrow>
   \<exists>bs. section_of (first_match s res) = Return bs \<and> (first_match s res = None \<longrightarrow> bs = [])"
proof (cases "first_match s res")
  case None
  then show ?thesis by (simp add: section_of_def extractBullets_empty)
next
  case (Some x)
  assume "\<forall>re \<in> set res. closes re"
  from first_match_capture [OF Some this] obtain c where "x = Some c" by auto
  with Some extractBullets_returns [of c] show ?thesis by (auto simp: section_of_def)
qed

section \<open>The classifier validates what it returns\<close>

lemma array_includes_member: "array_includes xs v \<Longrightarrow> string_of v \<in> set xs"
  by (cases v) simp_all

lemma validate_enum:
  "validate c = Inr r \<Longrightarrow> sentiment r \<in> set sentiments \<and> urgency r \<in> set urgencies"
  by (auto simp: validate_def sentiments_def urgencies_def dest: array_includes_member
      split: sum.splits if_splits)

lemma validate_sentiment_coerced:
  "validate c = Inr r \<Longrightarrow> get_prop c (js ''sentiment'') = Inr s \<Longrightarrow> \<not> array_includes sentiments s
   \<Longrightarrow> sentiment r = js ''neutral''"
  by (auto simp: validate_def split: sum.splits)

lemma validate_urgency_coerced:
  "validate c = Inr r \<Longrightarrow> get_prop c (js ''urgency'') = Inr u \<Longrightarrow> \<not> array_includes urgencies u
   \<Longrightarrow> urgency r = js ''low''"
  by (auto simp: validate_def split: sum.splits)

lemma classifyFeedback_validate:
  "classifyFeedback P env text = Inr r \<Longrightarrow> \<exists>c. validate c = Inr r"
  by (auto simp: classifyFeedback_def split: sum.splits)

lemma validate_object: "\<exists>r. validate (JObj fs) = Inr r"
  by (simp add: validate_def)

lemma fallback_sentiment_enum: "fallback_sentiment P text \<in> set sentiments"
  by (simp add: fallback_sentiment_def sentiments_def Let_def)

lemma fallback_urgency_enum: "fallback_urgency P text \<in> set urgencies"
  by (simp add: fallback_urgency_def urgencies_def Let_def)

lemma validate_fallback:
  "validate (fallback P text) =
     Inr \<lparr> sentiment = fallback_sentiment P text, urgency = fallback_urgency P text \<rparr>"
  using fallback_sentiment_enum [of P "text"] fallback_urgency_enum [of P "text"]
  by (simp add: validate_def fallback_def js_def)

lemma json_tail:
  "m [StarG AnyCh, One (Ch 125), GroupEnd s0] s cap = Some (r, cap')
   \<Longrightarrow> cap' = Some (take (length s0 - length r) s0) \<and> length r < length s"
proof (induction s)
  case Nil
  then show ?case by simp
next
  case (Cons c t)
  show ?case
  proof (cases "m [StarG AnyCh, One (Ch 125), GroupEnd s0] t cap")
    case None
    with Cons.prems show ?thesis by (auto split: if_splits)
  next
    case (Some res)
    with Cons.prems have "m [StarG AnyCh, One (Ch 125), GroupEnd s0] t cap = Some (r, cap')" by simp
    from Cons.IH [OF this] show ?thesis by simp
  qed
qed

lemma json_match_starts:
  assumes "m json_regex s None = Some (r, cap)"
  shows "\<exists>t. cap = Some (123 # t)"
proof (cases s)
  case Nil
  with assms show ?thesis by (simp add: json_regex_def)
next
  case (Cons c s1)
  with assms have c: "c = 123"
    and t: "m [StarG AnyCh, One (Ch 125), GroupEnd (c # s1)] s1 None = Some (r, cap)"
    by (simp_all add: json_regex_def split: if_splits)
  from json_tail [OF t] have "cap = Some (take (length (c # s1) - length r) (c # s1))"
    and "length r < length s1" by simp_all
  then have "cap = Some (c # take (length s1 - length r) s1)"
    by (simp add: Suc_diff_le)
  with c show ?thesis by simp
qed

lemma search_json_starts: "search json_regex s = Some (r, cap) \<Longrightarrow> \<exists>t. cap = Some (123 # t)"
proof (induction s)
  case Nil
  then show ?case by (simp add: json_match_starts)
next
  case (Cons c s)
  show ?case
  proof (cases "m json_regex (c # s) None")
    case None
    with Cons show ?thesis by simp
  next
    case (Some res)
    with Cons.prems have "m json_regex (c # s) None = Some (r, cap)" by simp
    then show ?thesis by (rule json_match_starts)
  qed
qed

lemma try_parse_object:
  assumes "\<forall>s v. JSON_parse P (123 # s) = Some v \<longrightarrow> (\<exists>fs. v = JObj fs)"
    and "try_parse P responseText = Inr v"
  shows "\<exists>fs. v = JObj fs"
proof -
  from assms(2) obtain s j where "responseText = JStr s"
    and "str_match s json_regex = Some (Some j)" and p: "JSON_parse P j = Some v"
    by (auto simp: try_parse_def split: jsvalue.splits option.splits)
  then obtain r where "search json_regex s = Some (r, Some j)"
    by (auto simp: str_match_def)
  from search_json_starts [OF this] obtain t where "j = 123 # t" by auto
  with p assms(1) show ?thesis by blast
qed

lemma response_text_returns:
  "response \<noteq> JUndefined \<Longrightarrow> response \<noteq> JNull \<Longrightarrow> \<exists>rt. response_text P response = Inr rt"
  by (cases response) (simp_all add: response_text_def)

lemma classifyFeedback_rejected:
  "AI_run env (classify_request feedbackText) = Inl e \<Longrightarrow> classifyFeedback P env feedbackText = Inl e"
  by (simp add: classifyFeedback_def)

lemma classifyFeedback_fallback:
  "AI_run env (classify_request feedbackText) = Inr response \<Longrightarrow>
   response_text P response = Inr responseText \<Longrightarrow> try_parse P responseText = Inl e \<Longrightarrow>
   classifyFeedback P env feedbackText =
     Inr \<lparr> sentiment = fallback_sentiment P feedbackText, urgency = fallback_urgency P feedbackText \<rparr>"
  by (simp add: classifyFeedback_def validate_fallback)

lemma process_items_all_rejected:
  "\<forall>f \<in> set batch. \<exists>e. AI_run env (classify_request (fb_content f)) = Inl e \<Longrightarrow>
   \<exists>errs. process_items P env batch db processed errors = (processed, errors @ errs, db)
      \<and> map err_id errs = map fb_id batch"
proof (induction batch arbitrary: errors)
  case Nil
  then show ?case by simp
next
  case (Cons f batch)
  from Cons.prems obtain e where e: "AI_run env (classify_request (fb_content f)) = Inl e" by auto
  let ?entry = "\<lparr> err_id = fb_id f, err_error = String_error P e \<rparr>"
  from Cons.prems have "\<forall>f \<in> set batch. \<exists>e. AI_run env (classify_request (fb_content f)) = Inl e"
    by simp
  from Cons.IH [OF this, of "errors @ [?entry]"] obtain errs
    where "process_items P env batch db processed (errors @ [?entry]) =
        (processed, (errors @ [?entry]) @ errs, db)" and "map err_id errs = map fb_id batch"
    by blast
  then have "process_items P env (f # batch) db processed errors =
        (processed, errors @ (?entry # errs), db) \<and> map err_id (?entry # errs) = map fb_id (f # batch)"
    by (simp add: classifyFeedback_rejected [OF e])
  then show ?case by blast
qed

section \<open>Claims\<close>

text \<open>
  C1. Whatever the text and whatever the oracle answers, a result that the classifier
  returns has its sentiment among \<open>positive\<close>, \<open>negative\<close>, \<open>neutral\<close> and its urgency among
  \<open>high\<close>, \<open>medium\<close>, \<open>low\<close>. The last step, applied on both paths, replaces a candidate
  sentiment that is not one of the three strings by \<open>neutral\<close> and a candidate urgency that
  is not one of the three strings by \<open>low\<close>; a value of another type is not a member.
\<close>

theorem classifyFeedback_enum:
  "(classifyFeedback P env feedbackText = Inr r \<longrightarrow>
      sentiment r \<in> {js ''positive'', js ''negative'', js ''neutral''}
      \<and> urgency r \<in> {js ''high'', js ''medium'', js ''low''})
   \<and> (validate classification = Inr r' \<and> get_prop classification (js ''sentiment'') = Inr s
        \<and> \<not> array_includes [js ''positive'', js ''negative'', js ''neutral''] s
      \<longrightarrow> sentiment r' = js ''neutral'')
   \<and> (validate classification = Inr r' \<and> get_prop classification (js ''urgency'') = Inr u
        \<and> \<not> array_includes [js ''high'', js ''medium'', js ''low''] u
      \<longrightarrow> urgency r' = js ''low'')"
proof (intro conjI impI)
  assume "classifyFeedback P env feedbackText = Inr r"
  then obtain c where "validate c = Inr r" using classifyFeedback_validate by blast
  from validate_enum [OF this]
  show "sentiment r \<in> {js ''positive'', js ''negative'', js ''neutral''}"
    and "urgency r \<in> {js ''high'', js ''medium'', js ''low''}"
    by (simp_all add: sentiments_def urgencies_def)
next
  assume "validate classification = Inr r' \<and> get_prop classification (js ''sentiment'') = Inr s
        \<and> \<not> array_includes [js ''positive'', js ''negative'', js ''neutral''] s"
  then show "sentiment r' = js ''neutral''"
    using validate_sentiment_coerced [of classification r' s] by (simp add: sentiments_def)
next
  assume "validate classification = Inr r' \<and> get_prop classification (js ''urgency'') = Inr u
        \<and> \<not> array_includes [js ''high'', js ''medium'', js ''low''] u"
  then show "urgency r' = js ''low''"
    using validate_urgency_coerced [of classification r' u] by (simp add: urgencies_def)
qed

text \<open>
  C1 at an oracle answer whose JSON carries the sentiment \<open>happy\<close> and the urgency \<open>3\<close>: the
  classifier returns \<open>neutral\<close> and \<open>low\<close>.
\<close>

theorem classifyFeedback_enum_witness:
  "classifyFeedback (table_platform [(happy_json, happy_value)])
       (memory_env (oracle_says (JObj [(js ''response'', JStr happy_json)])) [])
       (js ''I love it'')
     = Inr \<lparr> sentiment = js ''neutral'', urgency = js ''low'' \<rparr>
   \<and> validate happy_value = Inr \<lparr> sentiment = js ''neutral'', urgency = js ''low'' \<rparr>
   \<and> get_prop happy_value (js ''sentiment'') = Inr (JStr (js ''happy''))
   \<and> get_prop happy_value (js ''urgency'') = Inr (JNum 3)
   \<and> js ''neutral'' \<in> {js ''positive'', js ''negative'', js ''neutral''}
   \<and> js ''low'' \<in> {js ''high'', js ''medium'', js ''low''}"
proof -
  have a: "classifyFeedback (table_platform [(happy_json, happy_value)])
       (memory_env (oracle_says (JObj [(js ''response'', JStr happy_json)])) [])
       (js ''I love it'')
     = Inr \<lparr> sentiment = js ''neutral'', urgency = js ''low'' \<rparr>"
    by (simp add: classify_defs platform_defs env_defs happy_json_def happy_value_def js_def)
  have b: "validate happy_value = Inr \<lparr> sentiment = js ''neutral'', urgency = js ''low'' \<rparr>"
    "get_prop happy_value (js ''sentiment'') = Inr (JStr (js ''happy''))"
    "get_prop happy_value (js ''urgency'') = Inr (JNum 3)"
    "\<not> array_includes [js ''positive'', js ''negative'', js ''neutral''] (JStr (js ''happy''))"
    "\<not> array_includes [js ''high'', js ''medium'', js ''low''] (JNum 3)"
    by (simp_all add: classify_defs platform_defs env_defs happy_json_def happy_value_def js_def)
  from classifyFeedback_enum [where P = "table_platform [(happy_json, happy_value)]"
      and env = "memory_env (oracle_says (JObj [(js ''response'', JStr happy_json)])) []"
      and feedbackText = "js ''I love it''"
      and r = "\<lparr> sentiment = js ''neutral'', urgency = js ''low'' \<rparr>"
      and classification = happy_value
      and r' = "\<lparr> sentiment = js ''neutral'', urgency = js ''low'' \<rparr>"
      and s = "JStr (js ''happy'')" and u = "JNum 3"] a b
  show ?thesis by simp
qed

text \<open>
  C2, as stated, fails: with an oracle that rejects every request, \<open>classifyFeedback\<close>
  rejects as well, and for the ten unclassified sample rows the batch operation reports no
  processed item and ten errors.
\<close>

theorem processFeedback_oracle_down:
  "classifyFeedback (table_platform []) (memory_env oracle_down []) (js ''I love it'')
     = Inl (Rejected (js ''AI unavailable''))
   \<and> processFeedback (table_platform []) (memory_env oracle_down []) sample_batch
     = (Processed 0 []
         (Some [\<lparr> err_id = 1, err_error = js ''AI unavailable'' \<rparr>,
                \<lparr> err_id = 2, err_error = js ''AI unavailable'' \<rparr>,
                \<lparr> err_id = 3, err_error = js ''AI unavailable'' \<rparr>,
                \<lparr> err_id = 4, err_error = js ''AI unavailable'' \<rparr>,
                \<lparr> err_id = 5, err_error = js ''AI unavailable'' \<rparr>,
                \<lparr> err_id = 6, err_error = js ''AI unavailable'' \<rparr>,
                \<lparr> err_id = 7, err_error = js ''AI unavailable'' \<rparr>,
                \<lparr> err_id = 8, err_error = js ''AI unavailable'' \<rparr>,
                \<lparr> err_id = 9, err_error = js ''AI unavailable'' \<rparr>,
                \<lparr> err_id = 10, err_error = js ''AI unavailable'' \<rparr>]),
        sample_batch)"
  by (simp add: classifyFeedback_def processFeedback_def platform_defs env_defs
      sample_batch_def unclassified_def)

text \<open>
  C2, amended. A rejected oracle call is not absorbed by \<open>classifyFeedback\<close>: it leaves
  the function. What degrades to the keyword fallback is a response from which no JSON
  object can be extracted or parsed. The batch operation catches the rejection for each item
  and records it: when the oracle rejects the request of every item of a non-empty batch,
  the report has no processed item and one error entry per item, in the order of the batch,
  and the store is unchanged.
\<close>

theorem oracle_failure_is_recorded_per_item:
  "(AI_run env (classify_request feedbackText) = Inl e \<longrightarrow> classifyFeedback P env feedbackText = Inl e)
   \<and> (AI_run env (classify_request feedbackText) = Inr response
        \<and> response_text P response = Inr responseText \<and> try_parse P responseText = Inl e'
      \<longrightarrow> classifyFeedback P env feedbackText =
            Inr \<lparr> sentiment = fallback_sentiment P feedbackText,
                  urgency = fallback_urgency P feedbackText \<rparr>)
   \<and> (select_unprocessed env db = Inr \<lparr> success = True, results = Some batch \<rparr> \<and> batch \<noteq> []
        \<and> (\<forall>f \<in> set batch. \<exists>e. AI_run env (classify_request (fb_content f)) = Inl e)
      \<longrightarrow> (\<exists>errs. processFeedback P env db = (Processed 0 [] (Some errs), db)
             \<and> map err_id errs = map fb_id batch))"
proof (intro conjI impI)
  assume "AI_run env (classify_request feedbackText) = Inl e"
  then show "classifyFeedback P env feedbackText = Inl e" by (rule classifyFeedback_rejected)
next
  assume "AI_run env (classify_request feedbackText) = Inr response
        \<and> response_text P response = Inr responseText \<and> try_parse P responseText = Inl e'"
  then show "classifyFeedback P env feedbackText =
            Inr \<lparr> sentiment = fallback_sentiment P feedbackText,
                  urgency = fallback_urgency P feedbackText \<rparr>"
    using classifyFeedback_fallback by blast
next
  assume a: "select_unprocessed env db = Inr \<lparr> success = True, results = Some batch \<rparr> \<and> batch \<noteq> []
        \<and> (\<forall>f \<in> set batch. \<exists>e. AI_run env (classify_request (fb_content f)) = Inl e)"
  then obtain f rest where b: "batch = f # rest" by (cases batch) auto
  from a process_items_all_rejected [of batch env P db "[]" "[]"] obtain errs
    where p: "process_items P env batch db [] [] = ([], errs, db)"
      and i: "map err_id errs = map fb_id batch" by auto
  from i b have "errs \<noteq> []" by auto
  with a p b i show "\<exists>errs. processFeedback P env db = (Processed 0 [] (Some errs), db)
             \<and> map err_id errs = map fb_id batch"
    by (auto simp: processFeedback_def)
qed

text \<open>
  C2, amended, at the rejecting oracle, at an oracle whose answer holds no JSON object, and
  at the ten sample rows.
\<close>

theorem oracle_failure_is_recorded_per_item_witness:
  "classifyFeedback (table_platform []) (memory_env oracle_down []) (js ''I love it'')
     = Inl (Rejected (js ''AI unavailable''))
   \<and> classifyFeedback (table_platform [])
        (memory_env (oracle_says (JObj [(js ''response'', JStr (js ''no json here''))])) [])
        (js ''I love it'')
     = Inr \<lparr> sentiment = fallback_sentiment (table_platform []) (js ''I love it''),
             urgency = fallback_urgency (table_platform []) (js ''I love it'') \<rparr>
   \<and> (\<exists>errs. processFeedback (table_platform []) (memory_env oracle_down []) sample_batch
              = (Processed 0 [] (Some errs), sample_batch)
          \<and> map err_id errs = map fb_id sample_batch)"
proof -
  let ?P = "table_platform []"
  let ?up = "memory_env (oracle_says (JObj [(js ''response'', JStr (js ''no json here''))])) []
      :: (Feedback list) env"
  let ?down = "memory_env oracle_down [] :: (Feedback list) env"
  have a: "AI_run ?down (classify_request (js ''I love it'')) = Inl (Rejected (js ''AI unavailable''))"
    by (simp add: env_defs)
  have b: "AI_run ?up (classify_request (js ''I love it''))
        = Inr (JObj [(js ''response'', JStr (js ''no json here''))])"
    "response_text ?P (JObj [(js ''response'', JStr (js ''no json here''))])
        = Inr (JStr (js ''no json here''))"
    "try_parse ?P (JStr (js ''no json here'')) = Inl (Error (js ''No JSON found in response''))"
    by (simp_all add: platform_defs env_defs classify_defs js_def)
  have c: "select_unprocessed ?down sample_batch = Inr \<lparr> success = True, results = Some sample_batch \<rparr>"
    "sample_batch \<noteq> []"
    "\<forall>f \<in> set sample_batch. \<exists>e. AI_run ?down (classify_request (fb_content f)) = Inl e"
    by (simp_all add: env_defs sample_batch_def unclassified_def)
  from oracle_failure_is_recorded_per_item [where P = ?P and env = ?down
      and feedbackText = "js ''I love it''" and e = "Rejected (js ''AI unavailable'')"
      and db = sample_batch and batch = sample_batch]
    oracle_failure_is_recorded_per_item [where P = ?P and env = ?up
      and feedbackText = "js ''I love it''"
      and response = "JObj [(js ''response'', JStr (js ''no json here''))]"
      and responseText = "JStr (js ''no json here'')"
      and e' = "Error (js ''No JSON found in response'')"]
    a b c
  show ?thesis by simp
qed

text \<open>
  C3. The section parser is total with bounded output: for every input string
  \<open>parseSummary\<close> returns (it neither throws nor loops) a value with at most 3 themes, at
  most 3 critical issues and at most 2 recommendations, and a headline that is a string.
  When no headline pattern matches, the headline is \<open>No headline available\<close>; a section
  whose patterns do not match is the empty list.
\<close>

theorem parseSummary_total_bounded:
  "\<exists>r. parseSummary summaryText = Return r
     \<and> length (themes r) \<le> 3 \<and> length (criticalIssues r) \<le> 3 \<and> length (recommendation r) \<le> 2
     \<and> (first_match summaryText headline_patterns = None \<longrightarrow> headline r = no_headline)
     \<and> (first_match summaryText themes_patterns = None \<longrightarrow> themes r = [])
     \<and> (first_match summaryText issues_patterns = None \<longrightarrow> criticalIssues r = [])
     \<and> (first_match summaryText rec_patterns = None \<longrightarrow> recommendation r = [])"
proof -
  obtain h where h: "headline_of (first_match summaryText headline_patterns) = Return h"
    "first_match summaryText headline_patterns = None \<longrightarrow> h = no_headline"
    using headline_of_returns by blast
  obtain ts where ts: "section_of (first_match summaryText themes_patterns) = Return ts"
    "first_match summaryText themes_patterns = None \<longrightarrow> ts = []"
    using section_of_returns [OF patterns_close(2)] by blast
  obtain cs where cs: "section_of (first_match summaryText issues_patterns) = Return cs"
    "first_match summaryText issues_patterns = None \<longrightarrow> cs = []"
    using section_of_returns [OF patterns_close(3)] by blast
  obtain rs where rs: "section_of (first_match summaryText rec_patterns) = Return rs"
    "first_match summaryText rec_patterns = None \<longrightarrow> rs = []"
    using section_of_returns [OF patterns_close(4)] by blast
  show ?thesis
    using h(2) ts(2) cs(2) rs(2) by (simp add: parseSummary_def h(1) ts(1) cs(1) rs(1))
qed

text \<open>
  C3 at the empty string: no pattern matches, and the result is the placeholder headline
  with three empty lists.
\<close>

theorem parseSummary_total_bounded_witness:
  "first_match [] headline_patterns = None \<and> first_match [] themes_patterns = None
   \<and> first_match [] issues_patterns = None \<and> first_match [] rec_patterns = None
   \<and> parseSummary [] = Return \<lparr> headline = no_headline, themes = [], criticalIssues = [],
        recommendation = [] \<rparr>"
proof -
  have a: "first_match [] headline_patterns = None" "first_match [] themes_patterns = None"
    "first_match [] issues_patterns = None" "first_match [] rec_patterns = None"
    by (simp_all add: parse_defs)
  from parseSummary_total_bounded [of "[]"] a show ?thesis by auto
qed

text \<open>
  C4. Round trip on the canonical template. Evaluated at the contents \<open>H\<close>, \<open>a\<close>, \<open>b\<close>,
  \<open>c\<close>, \<open>d\<close>, the parser recovers the headline and the recommendation, but the themes are
  \<open>[a]\<close> and the critical issues are \<open>["\<bullet> c"]\<close>: the section text captured before the next
  header ends in a line break, which none of \<open>\n[\<bullet>*-+]\<close>, \<open>\n\n\<close>, \<open>$\<close> accepts, so the last
  bullet of a section that is not the last one is not matched.
\<close>

theorem parseSummary_template_last_bullet_lost:
  "parseSummary (template (js ''H'') (js ''a'') (js ''b'') (js ''c'') (js ''d'')) =
     Return \<lparr> headline = js ''H'', themes = [js ''a''], criticalIssues = [bullet # js '' c''],
       recommendation = [js ''d''] \<rparr>"
  by (simp add: eval_defs parse_defs)

text \<open>
  C5. The keyword fallback, on the lower-cased text: if it contains \<open>love\<close> and none of
  \<open>hate\<close>, \<open>bad\<close>, \<open>terrible\<close>, the sentiment is \<open>positive\<close>; if it contains none of the six
  sentiment keywords, the sentiment is \<open>neutral\<close>; if it contains none of the five urgency
  keywords, the urgency is \<open>low\<close>.
\<close>

theorem fallback_keywords:
  "(includes_str (toLowerCase P feedbackText) (js ''love'')
      \<and> \<not> includes_str (toLowerCase P feedbackText) (js ''hate'')
      \<and> \<not> includes_str (toLowerCase P feedbackText) (js ''bad'')
      \<and> \<not> includes_str (toLowerCase P feedbackText) (js ''terrible'')
      \<longrightarrow> fallback_sentiment P feedbackText = js ''positive'')
   \<and> (\<not> includes_str (toLowerCase P feedbackText) (js ''great'')
      \<and> \<not> includes_str (toLowerCase P feedbackText) (js ''love'')
      \<and> \<not> includes_str (toLowerCase P feedbackText) (js ''excellent'')
      \<and> \<not> includes_str (toLowerCase P feedbackText) (js ''bad'')
      \<and> \<not> includes_str (toLowerCase P feedbackText) (js ''hate'')
      \<and> \<not> includes_str (toLowerCase P feedbackText) (js ''terrible'')
      \<longrightarrow> fallback_sentiment P feedbackText = js ''neutral'')
   \<and> (\<not> includes_str (toLowerCase P feedbackText) (js ''urgent'')
      \<and> \<not> includes_str (toLowerCase P feedbackText) (js ''asap'')
      \<and> \<not> includes_str (toLowerCase P feedbackText) (js ''critical'')
      \<and> \<not> includes_str (toLowerCase P feedbackText) (js ''soon'')
      \<and> \<not> includes_str (toLowerCase P feedbackText) (js ''important'')
      \<longrightarrow> fallback_urgency P feedbackText = js ''low'')"
  by (simp add: fallback_sentiment_def fallback_urgency_def Let_def)

text \<open>
  C5 at \<open>I LOVE it\<close> and at \<open>The interface is okay\<close>, with the ASCII lower-casing.
\<close>

theorem fallback_keywords_witness:
  "includes_str (toLowerCase (table_platform []) (js ''I LOVE it'')) (js ''love'')
   \<and> fallback_sentiment (table_platform []) (js ''I LOVE it'') = js ''positive''
   \<and> fallback_sentiment (table_platform []) (js ''The interface is okay'') = js ''neutral''
   \<and> fallback_urgency (table_platform []) (js ''The interface is okay'') = js ''low''"
proof -
  let ?P = "table_platform []"
  have a: "includes_str (toLowerCase ?P (js ''I LOVE it'')) (js ''love'')"
    "\<not> includes_str (toLowerCase ?P (js ''I LOVE it'')) (js ''hate'')"
    "\<not> includes_str (toLowerCase ?P (js ''I LOVE it'')) (js ''bad'')"
    "\<not> includes_str (toLowerCase ?P (js ''I LOVE it'')) (js ''terrible'')"
    by (simp_all add: platform_defs js_def)
  have b: "\<not> includes_str (toLowerCase ?P (js ''The interface is okay'')) (js ''great'')"
    "\<not> includes_str (toLowerCase ?P (js ''The interface is okay'')) (js ''love'')"
    "\<not> includes_str (toLowerCase ?P (js ''The interface is okay'')) (js ''excellent'')"
    "\<not> includes_str (toLowerCase ?P (js ''The interface is okay'')) (js ''bad'')"
    "\<not> includes_str (toLowerCase ?P (js ''The interface is okay'')) (js ''hate'')"
    "\<not> includes_str (toLowerCase ?P (js ''The interface is okay'')) (js ''terrible'')"
    "\<not> includes_str (toLowerCase ?P (js ''The interface is okay'')) (js ''urgent'')"
    "\<not> includes_str (toLowerCase ?P (js ''The interface is okay'')) (js ''asap'')"
    "\<not> includes_str (toLowerCase ?P (js ''The interface is okay'')) (js ''critical'')"
    "\<not> includes_str (toLowerCase ?P (js ''The interface is okay'')) (js ''soon'')"
    "\<not> includes_str (toLowerCase ?P (js ''The interface is okay'')) (js ''important'')"
    by (simp_all add: platform_defs js_def)
  from fallback_keywords [of ?P "js ''I LOVE it''"]
    fallback_keywords [of ?P "js ''The interface is okay''"] a b
  show ?thesis by simp
qed

text \<open>
  C6, as stated, fails: for the envelope \<^verbatim>\<open>{"output":[],"response":"hello"}\<close> the output
  array yields no text, and the result is the stringified envelope, not the \<open>response\<close>
  field.
\<close>

theorem summary_text_empty_output_ignores_response:
  "summary_text (table_platform [(empty_output_json, empty_output_value)]) empty_output_value
     = JStr empty_output_json
   \<and> get_prop empty_output_value (js ''response'') = Inr (JStr (js ''hello''))
   \<and> JStr empty_output_json \<noteq> JStr (js ''hello'')"
  by (simp add: summary_text_def parse_response_def unwrap_parsed_def output_texts_def
      is_message_def item_content_blocks_def is_output_text_def empty_output_json_def
      empty_output_value_def output_text_block_def message_value_def platform_defs js_def)

text \<open>
  C6, amended. The unwrapping never throws, and its order is: when the parsed value has an
  \<open>output\<close> array, the texts of the \<open>output_text\<close> blocks of its \<open>message\<close> entries,
  concatenated in order, if that is not empty, and otherwise the stringified parsed value,
  without looking at \<open>response\<close>; when it has no \<open>output\<close> array, the \<open>response\<close> field if
  it is truthy, and otherwise the stringified parsed value; when anything in this throws,
  the raw string, or the stringified raw value (\<open>undefined\<close> for \<open>undefined\<close>).
\<close>

theorem summary_text_priority:
  "(parse_response P aiResponse = Inr parsed \<and> get_prop parsed (js ''output'') = Inr (JArr items)
      \<and> output_texts P items = Inr joined \<and> joined \<noteq> []
      \<longrightarrow> summary_text P aiResponse = JStr joined)
   \<and> (parse_response P aiResponse = Inr parsed \<and> get_prop parsed (js ''output'') = Inr (JArr items)
      \<and> output_texts P items = Inr []
      \<longrightarrow> summary_text P aiResponse = JStr (JSON_stringify P parsed))
   \<and> (parse_response P aiResponse = Inr parsed \<and> get_prop parsed (js ''output'') = Inr out
      \<and> \<not> isArray out \<and> get_prop parsed (js ''response'') = Inr response \<and> truthy response
      \<longrightarrow> summary_text P aiResponse = response)
   \<and> (parse_response P aiResponse = Inr parsed \<and> get_prop parsed (js ''output'') = Inr out
      \<and> \<not> isArray out \<and> get_prop parsed (js ''response'') = Inr response \<and> \<not> truthy response
      \<longrightarrow> summary_text P aiResponse = JStr (JSON_stringify P parsed))
   \<and> (and_then_sum (parse_response P aiResponse) (unwrap_parsed P) = Inl e
      \<longrightarrow> summary_text P aiResponse =
            (case aiResponse of JStr s \<Rightarrow> JStr s | JUndefined \<Rightarrow> JUndefined
             | _ \<Rightarrow> JStr (JSON_stringify P aiResponse)))"
proof (intro conjI impI)
  assume "parse_response P aiResponse = Inr parsed \<and> get_prop parsed (js ''output'') = Inr (JArr items)
      \<and> output_texts P items = Inr joined \<and> joined \<noteq> []"
  then show "summary_text P aiResponse = JStr joined"
    by (simp add: summary_text_def unwrap_parsed_def)
next
  assume "parse_response P aiResponse = Inr parsed \<and> get_prop parsed (js ''output'') = Inr (JArr items)
      \<and> output_texts P items = Inr []"
  then show "summary_text P aiResponse = JStr (JSON_stringify P parsed)"
    by (simp add: summary_text_def unwrap_parsed_def)
next
  assume "parse_response P aiResponse = Inr parsed \<and> get_prop parsed (js ''output'') = Inr out
      \<and> \<not> isArray out \<and> get_prop parsed (js ''response'') = Inr response \<and> truthy response"
  then show "summary_text P aiResponse = response"
    by (cases out) (simp_all add: summary_text_def unwrap_parsed_def)
next
  assume "parse_response P aiResponse = Inr parsed \<and> get_prop parsed (js ''output'') = Inr out
      \<and> \<not> isArray out \<and> get_prop parsed (js ''response'') = Inr response \<and> \<not> truthy response"
  then show "summary_text P aiResponse = JStr (JSON_stringify P parsed)"
    by (cases out) (simp_all add: summary_text_def unwrap_parsed_def)
next
  assume "and_then_sum (parse_response P aiResponse) (unwrap_parsed P) = Inl e"
  then show "summary_text P aiResponse =
            (case aiResponse of JStr s \<Rightarrow> JStr s | JUndefined \<Rightarrow> JUndefined
             | _ \<Rightarrow> JStr (JSON_stringify P aiResponse))"
    by (simp add: summary_text_def)
qed

text \<open>
  C6, amended, at an envelope with one message of two text blocks, at an envelope with an
  empty output array, at \<^verbatim>\<open>{response: "hello"}\<close>, at the empty object and at a plain string
  that is not JSON.
\<close>

theorem summary_text_priority_witness:
  "summary_text (table_platform [(empty_output_json, empty_output_value)]) message_value
     = JStr (js ''hi there'')
   \<and> summary_text (table_platform [(empty_output_json, empty_output_value)]) empty_output_value
     = JStr empty_output_json
   \<and> summary_text (table_platform [(empty_output_json, empty_output_value)])
       (JObj [(js ''response'', JStr (js ''hello''))]) = JStr (js ''hello'')
   \<and> summary_text (table_platform [(js ''{}'', JObj [])]) (JObj []) = JStr (js ''{}'')
   \<and> summary_text (table_platform [(empty_output_json, empty_output_value)]) (JStr (js ''plain text''))
     = JStr (js ''plain text'')"
proof -
  let ?P = "table_platform [(empty_output_json, empty_output_value)]"
  let ?Q = "table_platform [(js ''{}'', JObj [])]"
  have a: "parse_response ?P message_value = Inr message_value"
    "get_prop message_value (js ''output'') =
       Inr (JArr [JObj [(js ''type'', JStr (js ''message'')),
                        (js ''content'', JArr [output_text_block (js ''hi ''),
                                                output_text_block (js ''there'')])]])"
    "output_texts ?P [JObj [(js ''type'', JStr (js ''message'')),
                        (js ''content'', JArr [output_text_block (js ''hi ''),
                                                output_text_block (js ''there'')])]]
       = Inr (js ''hi there'')"
    "js ''hi there'' \<noteq> []"
    by (simp_all add: summary_text_def parse_response_def unwrap_parsed_def output_texts_def
      is_message_def item_content_blocks_def is_output_text_def empty_output_json_def
      empty_output_value_def output_text_block_def message_value_def platform_defs js_def)
  have b: "parse_response ?P empty_output_value = Inr empty_output_value"
    "get_prop empty_output_value (js ''output'') = Inr (JArr [])"
    "output_texts ?P [] = Inr []"
    "JSON_stringify ?P empty_output_value = empty_output_json"
    by (simp_all add: summary_text_def parse_response_def unwrap_parsed_def output_texts_def
      is_message_def item_content_blocks_def is_output_text_def empty_output_json_def
      empty_output_value_def output_text_block_def message_value_def platform_defs js_def)
  have c: "parse_response ?P (JObj [(js ''response'', JStr (js ''hello''))])
        = Inr (JObj [(js ''response'', JStr (js ''hello''))])"
    "get_prop (JObj [(js ''response'', JStr (js ''hello''))]) (js ''output'') = Inr JUndefined"
    "\<not> isArray JUndefined"
    "get_prop (JObj [(js ''response'', JStr (js ''hello''))]) (js ''response'') = Inr (JStr (js ''hello''))"
    "truthy (JStr (js ''hello''))"
    by (simp_all add: summary_text_def parse_response_def unwrap_parsed_def output_texts_def
      is_message_def item_content_blocks_def is_output_text_def empty_output_json_def
      empty_output_value_def output_text_block_def message_value_def platform_defs js_def)
  have d: "parse_response ?Q (JObj []) = Inr (JObj [])"
    "get_prop (JObj []) (js ''output'') = Inr JUndefined"
    "get_prop (JObj []) (js ''response'') = Inr JUndefined"
    "\<not> truthy JUndefined"
    "JSON_stringify ?Q (JObj []) = js ''{}''"
    by (simp_all add: summary_text_def parse_response_def unwrap_parsed_def output_texts_def
      is_message_def item_content_blocks_def is_output_text_def empty_output_json_def
      empty_output_value_def output_text_block_def message_value_def platform_defs js_def)
  have e: "and_then_sum (parse_response ?P (JStr (js ''plain text''))) (unwrap_parsed ?P) = Inl SyntaxError"
    by (simp add: summary_text_def parse_response_def unwrap_parsed_def output_texts_def
      is_message_def item_content_blocks_def is_output_text_def empty_output_json_def
      empty_output_value_def output_text_block_def message_value_def platform_defs js_def)
  from summary_text_priority [where P = ?P and aiResponse = message_value and parsed = message_value
      and items = "[JObj [(js ''type'', JStr (js ''message'')),
                        (js ''content'', JArr [output_text_block (js ''hi ''),
                                                output_text_block (js ''there'')])]]"
      and joined = "js ''hi there''"]
    summary_text_priority [where P = ?P and aiResponse = empty_output_value
      and parsed = empty_output_value and items = "[]"]
    summary_text_priority [where P = ?P and aiResponse = "JObj [(js ''response'', JStr (js ''hello''))]"
      and parsed = "JObj [(js ''response'', JStr (js ''hello''))]" and out = JUndefined
      and response = "JStr (js ''hello'')"]
    summary_text_priority [where P = ?Q and aiResponse = "JObj []" and parsed = "JObj []"
      and out = JUndefined and response = JUndefined]
    summary_text_priority [where P = ?P and aiResponse = "JStr (js ''plain text'')"
      and e = SyntaxError]
    a b c d e
  show ?thesis by simp
qed

text \<open>
  C7. For an empty batch the summary extractor reports the empty-input condition to the
  caller before any oracle call: \<open>generateSummary\<close> returns the message
  \<open>No processed feedback found for the specified date\<close>, which is how the program signals
  what the specification calls \<open>EmptyBatch\<close>, and the list of requests sent to the oracle is
  empty, whatever the oracle would answer.
\<close>

theorem generateSummary_empty_batch:
  "select_processed env db today = Inr feedbackResult \<Longrightarrow> results feedbackResult = Some [] \<Longrightarrow>
   generateSummary P env db =
     (NoProcessed today (js ''No processed feedback found for the specified date''), [])"
  by (simp add: generateSummary_def)

text \<open>
  C7 at the store in memory with no processed row.
\<close>

theorem generateSummary_empty_batch_witness:
  "generateSummary (table_platform []) (memory_env (oracle_says JNull) []) []
     = (NoProcessed today (js ''No processed feedback found for the specified date''), [])"
proof -
  have a: "select_processed (memory_env (oracle_says JNull) []) ([] :: Feedback list) today
      = Inr \<lparr> success = True, results = Some [] \<rparr>"
    by (simp add: memory_env_def)
  from generateSummary_empty_batch [OF a] show ?thesis by simp
qed

text \<open>
  C8, as stated, fails: for the empty text the classifier calls the oracle and returns a
  result, here \<open>neutral\<close> and \<open>low\<close>; there is no \<open>InvalidInput\<close>.
\<close>

theorem classifyFeedback_empty_text_accepted:
  "classifyFeedback (table_platform [])
       (memory_env (oracle_says (JObj [(js ''response'', JStr (js ''Please provide feedback''))])) [])
       []
     = Inr \<lparr> sentiment = js ''neutral'', urgency = js ''low'' \<rparr>"
  by (simp add: classify_defs platform_defs env_defs js_def)

text \<open>
  C8, amended. The classifier does not check its input: for every text, the empty string
  included, when the oracle call returns a response other than \<open>undefined\<close> and \<open>null\<close>, the
  classifier returns a result with both fields set to members of their enums. The
  hypothesis on \<open>JSON.parse\<close> is a fact of JSON: a text that begins with \<open>{\<close> parses to an
  object or not at all.
\<close>

theorem classifyFeedback_returns_for_every_text:
  assumes "AI_run env (classify_request feedbackText) = Inr response"
    and "response \<noteq> JUndefined" and "response \<noteq> JNull"
    and "\<forall>s v. JSON_parse P (123 # s) = Some v \<longrightarrow> (\<exists>fs. v = JObj fs)"
  shows "\<exists>r. classifyFeedback P env feedbackText = Inr r
           \<and> sentiment r \<in> {js ''positive'', js ''negative'', js ''neutral''}
           \<and> urgency r \<in> {js ''high'', js ''medium'', js ''low''}"
proof -
  from response_text_returns [OF assms(2,3)] obtain rt where rt: "response_text P response = Inr rt"
    by blast
  have "\<exists>fs. (case try_parse P rt of Inr classification \<Rightarrow> classification
                | Inl error \<Rightarrow> fallback P feedbackText) = JObj fs"
  proof (cases "try_parse P rt")
    case (Inl e)
    then show ?thesis by (simp add: fallback_def)
  next
    case (Inr v)
    with try_parse_object [OF assms(4) Inr] show ?thesis by simp
  qed
  then obtain fs where "(case try_parse P rt of Inr classification \<Rightarrow> classification
                | Inl error \<Rightarrow> fallback P feedbackText) = JObj fs" by blast
  with validate_object [of fs] obtain r where r: "classifyFeedback P env feedbackText = Inr r"
    and v: "validate (JObj fs) = Inr r"
    by (auto simp: classifyFeedback_def assms(1) rt)
  from validate_enum [OF v] r show ?thesis by (simp add: sentiments_def urgencies_def)
qed

text \<open>
  C8, amended, at the empty text.
\<close>

theorem classifyFeedback_returns_for_every_text_witness:
  "\<exists>r. classifyFeedback (table_platform [(happy_json, happy_value)])
         (memory_env (oracle_says (JObj [(js ''response'', JStr happy_json)])) []) [] = Inr r
       \<and> sentiment r \<in> {js ''positive'', js ''negative'', js ''neutral''}
       \<and> urgency r \<in> {js ''high'', js ''medium'', js ''low''}"
proof -
  have a: "AI_run (memory_env (oracle_says (JObj [(js ''response'', JStr happy_json)])) [])
      (classify_request []) = Inr (JObj [(js ''response'', JStr happy_json)])"
    by (simp add: memory_env_def oracle_says_def)
  have b: "\<forall>s v. JSON_parse (table_platform [(happy_json, happy_value)]) (123 # s) = Some v
      \<longrightarrow> (\<exists>fs. v = JObj fs)"
    by (simp add: table_platform_def happy_value_def)
  from classifyFeedback_returns_for_every_text [OF a _ _ b] show ?thesis by simp
qed

text \<open>
  C9. \<open>extractBullets\<close> returns the matches of the bullet pattern, in the order the scan
  from left to right finds them, followed by the matches of the numbered pattern, whatever
  their order in the text; only empty strings are removed and nothing is cut off. The
  ceilings are applied by \<open>parseSummary\<close> alone, as \<open>slice(0, 3)\<close>, \<open>slice(0, 3)\<close> and
  \<open>slice(0, 2)\<close> of what \<open>extractBullets\<close> returned. In \<open>"1. x\n\n\<bullet> y"\<close> the numbered line
  comes first and the result is \<open>["y", "x"]\<close>; four bullets give four entries.
\<close>

theorem extractBullets_bullets_then_numbered:
  "(\<exists>bs ns. exec_loop bulletRegex sectionText [] = Return bs
       \<and> exec_loop numberedRegex sectionText [] = Return ns
       \<and> extractBullets sectionText = Return (filter (\<lambda>b. b \<noteq> [])
             (if bs @ ns = [] then filter (\<lambda>l. l \<noteq> []) (map trim (split_on nl sectionText))
              else bs @ ns)))
   \<and> (\<exists>r ts cs rs. parseSummary summaryText = Return r
       \<and> section_of (first_match summaryText themes_patterns) = Return ts \<and> themes r = take 3 ts
       \<and> section_of (first_match summaryText issues_patterns) = Return cs
       \<and> criticalIssues r = take 3 cs
       \<and> section_of (first_match summaryText rec_patterns) = Return rs
       \<and> recommendation r = take 2 rs)
   \<and> extractBullets (js ''1. x'' @ [nl, nl, bullet] @ js '' y'') = Return [js ''y'', js ''x'']
   \<and> extractBullets ([bullet] @ js '' a'' @ [nl, bullet] @ js '' b'' @ [nl, bullet] @ js '' c''
        @ [nl, bullet] @ js '' d'') = Return [js ''a'', js ''b'', js ''c'', js ''d'']"
proof (intro conjI)
  obtain bs where b: "exec_loop bulletRegex sectionText [] = Return bs"
    using bullet_loop_returns [of sectionText "[]"] by auto
  obtain ns where n: "exec_loop numberedRegex sectionText [] = Return ns"
    using numbered_loop_returns [of sectionText "[]"] by auto
  have "exec_loop numberedRegex sectionText bs = Return (bs @ ns)"
    by (subst exec_loop_append) (simp add: n)
  then have "extractBullets sectionText = Return (filter (\<lambda>b. b \<noteq> [])
           (if bs @ ns = [] then filter (\<lambda>l. l \<noteq> []) (map trim (split_on nl sectionText))
            else bs @ ns))"
    by (simp add: extractBullets_def b Let_def)
  with b n show "\<exists>bs ns. exec_loop bulletRegex sectionText [] = Return bs
       \<and> exec_loop numberedRegex sectionText [] = Return ns
       \<and> extractBullets sectionText = Return (filter (\<lambda>b. b \<noteq> [])
             (if bs @ ns = [] then filter (\<lambda>l. l \<noteq> []) (map trim (split_on nl sectionText))
              else bs @ ns))"
    by blast
next
  obtain h where h: "headline_of (first_match summaryText headline_patterns) = Return h"
    using headline_of_returns by blast
  obtain ts where ts: "section_of (first_match summaryText themes_patterns) = Return ts"
    using section_of_returns [OF patterns_close(2)] by blast
  obtain cs where cs: "section_of (first_match summaryText issues_patterns) = Return cs"
    using section_of_returns [OF patterns_close(3)] by blast
  obtain rs where rs: "section_of (first_match summaryText rec_patterns) = Return rs"
    using section_of_returns [OF patterns_close(4)] by blast
  show "\<exists>r ts cs rs. parseSummary summaryText = Return r
       \<and> section_of (first_match summaryText themes_patterns) = Return ts \<and> themes r = take 3 ts
       \<and> section_of (first_match summaryText issues_patterns) = Return cs
       \<and> criticalIssues r = take 3 cs
       \<and> section_of (first_match summaryText rec_patterns) = Return rs
       \<and> recommendation r = take 2 rs"
    by (simp add: parseSummary_def h ts cs rs)
next
  show "extractBullets (js ''1. x'' @ [nl, nl, bullet] @ js '' y'') = Return [js ''y'', js ''x'']"
    by (simp add: eval_defs)
next
  show "extractBullets ([bullet] @ js '' a'' @ [nl, bullet] @ js '' b'' @ [nl, bullet] @ js '' c''
      @ [nl, bullet] @ js '' d'') = Return [js ''a'', js ''b'', js ''c'', js ''d'']"
    by (simp add: eval_defs)
qed

text \<open>
  C10. The numbered-list pattern is not anchored to a line start, so a line that begins
  with a bullet marker and contains a digit followed by \<open>.\<close> is matched by both patterns:
  \<open>extractBullets("\<bullet> fix 1. now")\<close> returns \<open>["fix 1. now", "now"]\<close>, two bullets from
  one line, the second a proper suffix of the first.
\<close>

theorem extractBullets_line_matched_twice:
  "extractBullets (bullet # js '' fix 1. now'') = Return [js ''fix 1. now'', js ''now'']
   \<and> js ''fix 1. now'' = js ''fix 1. '' @ js ''now'' \<and> js ''fix 1. '' \<noteq> []"
  by (simp add: eval_defs)

end
